theory Spec2Isabelle
  imports Complex_Main
begin

section \<open>Errors\<close>

text \<open>
  Every exception the modelled code can raise is a value. \<open>KeyError\<close> is Python's
  failure of \<open>d[k]\<close> on a missing key, \<open>RuntimeError\<close> is raised explicitly by the
  source, \<open>HTTPException\<close> carries the status code and the detail string, and
  \<open>ExternalError\<close> stands for any exception thrown by a collaborator that is not part
  of the model (a subprocess, the file system, a network client).
\<close>

datatype exn =
    KeyError string
  | RuntimeError string
  | HTTPException nat string
  | ExternalError string

section \<open>Plan validation (editing/plan_validation.py)\<close>

text \<open>
  A segment is a dictionary with the keys \<open>start\<close> and \<open>end\<close> and any further keys
  (\<open>reason\<close>, ...). The two keys are optional fields, because \<open>normalize_segments\<close>
  reads them with \<open>seg.get(key, 0)\<close> while \<open>clamp_duration_to_range\<close> reads them
  with \<open>seg[key]\<close>; the further keys are the extension part of the record, which
  \<open>{**seg, ...}\<close> copies. Seconds are real numbers: \<open>float(v)\<close> of a numeric value
  is the value itself.
\<close>

record segment =
  start :: "real option"
  end' :: "real option"

definition get_float :: "real option \<Rightarrow> real" where
  \<comment> \<open>\<open>float(seg.get(key, 0))\<close>\<close>
  "get_float v = (case v of None \<Rightarrow> 0 | Some r \<Rightarrow> r)"

text \<open>
  The loop of \<open>normalize_segments\<close> over the sorted list, with its two variables
  \<open>normalized\<close> and \<open>last_end\<close>.
\<close>

fun normalize_loop ::
  "real \<Rightarrow> 'a segment_scheme list \<Rightarrow> 'a segment_scheme list \<Rightarrow> real \<Rightarrow> 'a segment_scheme list"
where
  "normalize_loop min_len [] normalized last_end = normalized"
| "normalize_loop min_len (seg # ordered) normalized last_end =
     (let start0 = get_float (start seg);
          end0 = get_float (end' seg)
      in if end0 \<le> start0 then normalize_loop min_len ordered normalized last_end
         else let start1 = (if start0 < last_end then last_end else start0)
              in if end0 - start1 < min_len
                 then normalize_loop min_len ordered normalized last_end
                 else normalize_loop min_len ordered
                        (normalized @ [seg\<lparr>start := Some start1, end' := Some end0\<rparr>]) end0)"

definition normalize_segments ::
  "'a segment_scheme list \<Rightarrow> real \<Rightarrow> 'a segment_scheme list"
where
  \<comment> \<open>\<open>sorted\<close> is stable, as \<open>sort_key\<close> is.\<close>
  "normalize_segments segments min_len =
     normalize_loop min_len (sort_key (\<lambda>s. get_float (start s)) segments) [] 0"

definition seg_len :: "'a segment_scheme \<Rightarrow> exn + real" where
  \<comment> \<open>\<open>seg["end"] - seg["start"]\<close>: the left operand is evaluated first.\<close>
  "seg_len seg =
     (case end' seg of
        None \<Rightarrow> Inl (KeyError ''end'')
      | Some e \<Rightarrow>
          (case start seg of
             None \<Rightarrow> Inl (KeyError ''start'')
           | Some s \<Rightarrow> Inr (e - s)))"

fun sum_len :: "'a segment_scheme list \<Rightarrow> real \<Rightarrow> exn + real" where
  \<comment> \<open>\<open>sum(seg["end"] - seg["start"] for seg in segments)\<close>, from the left.\<close>
  "sum_len [] acc = Inr acc"
| "sum_len (seg # rest) acc =
     (case seg_len seg of
        Inl e \<Rightarrow> Inl e
      | Inr l \<Rightarrow> sum_len rest (acc + l))"

text \<open>
  The trimming loop of \<open>clamp_duration_to_range\<close>, with its variables \<open>trimmed\<close>
  and \<open>running\<close>; \<open>break\<close> ends the recursion.
\<close>

fun trim_loop ::
  "real \<Rightarrow> real \<Rightarrow> 'a segment_scheme list \<Rightarrow> 'a segment_scheme list \<Rightarrow> real
     \<Rightarrow> exn + ('a segment_scheme list \<times> real)"
where
  "trim_loop target_s min_total [] trimmed running = Inr (trimmed, running)"
| "trim_loop target_s min_total (seg # rest) trimmed running =
     (case seg_len seg of
        Inl e \<Rightarrow> Inl e
      | Inr l \<Rightarrow>
          if running + l \<le> target_s
          then trim_loop target_s min_total rest (trimmed @ [seg]) (running + l)
          else let remaining = max (target_s - running) (min_total - running)
               in if remaining \<ge> 0.4
                  then (case start seg of
                          None \<Rightarrow> Inl (KeyError ''start'')
                        | Some s \<Rightarrow>
                            Inr (trimmed @ [seg\<lparr>end' := Some (s + remaining)\<rparr>],
                                 running + remaining))
                  else Inr (trimmed, running))"

definition clamp_duration_to_range ::
  "'a segment_scheme list \<Rightarrow> real \<Rightarrow> real \<Rightarrow> real \<Rightarrow> exn + ('a segment_scheme list \<times> real)"
where
  "clamp_duration_to_range segments target_s min_total max_total =
     (case sum_len segments 0 of
        Inl e \<Rightarrow> Inl e
      | Inr total_s \<Rightarrow>
          if total_s \<le> max_total then Inr (segments, total_s)
          else (case trim_loop target_s min_total segments [] 0 of
                  Inl e \<Rightarrow> Inl e
                | Inr (trimmed, running) \<Rightarrow>
                    if running < min_total then Inr (segments, total_s)
                    else Inr (trimmed, running)))"

text \<open>
  Helper notions for the statements about segments: the duration a segment with both
  keys stands for, and the check that both keys are there.
\<close>

definition the_len :: "'a segment_scheme \<Rightarrow> real" where
  "the_len seg = get_float (end' seg) - get_float (start seg)"

definition has_keys :: "'a segment_scheme \<Rightarrow> bool" where
  "has_keys seg = (start seg \<noteq> None \<and> end' seg \<noteq> None)"

text \<open>
  \<open>chained ml le xs\<close>: every segment of \<open>xs\<close> has both keys, starts no earlier than
  the end of the one before it (\<open>le\<close> for the first) and is at least \<open>ml\<close> long.
\<close>

fun chained :: "real \<Rightarrow> real \<Rightarrow> 'a segment_scheme list \<Rightarrow> bool" where
  "chained ml le [] = True"
| "chained ml le (x # xs) =
     (has_keys x \<and> le \<le> get_float (start x) \<and> ml \<le> the_len x
      \<and> chained ml (get_float (end' x)) xs)"

section \<open>Strings, paths and numbers of the Python runtime\<close>

fun str_nat :: "nat \<Rightarrow> string" where
  \<comment> \<open>\<open>str(n)\<close> of a non-negative int, as an f-string prints an index.\<close>
  "str_nat n =
     (if n < 10 then [''0123456789'' ! n]
      else str_nat (n div 10) @ [''0123456789'' ! (n mod 10)])"

declare str_nat.simps [simp del]

fun str_join :: "string \<Rightarrow> string list \<Rightarrow> string" where
  \<comment> \<open>\<open>sep.join(xs)\<close>\<close>
  "str_join sep [] = []"
| "str_join sep [x] = x"
| "str_join sep (x # y # ys) = x @ sep @ str_join sep (y # ys)"

definition py_int :: "real \<Rightarrow> int" where
  \<comment> \<open>\<open>int(x)\<close> of a float truncates towards zero.\<close>
  "py_int x = (if 0 \<le> x then \<lfloor>x\<rfloor> else \<lceil>x\<rceil>)"

definition is_space :: "char \<Rightarrow> bool" where
  \<comment> \<open>The ASCII characters \<open>str.strip()\<close> removes.\<close>
  "is_space c =
     (c \<in> set [CHR 0x09, CHR 0x0A, CHR 0x0B, CHR 0x0C, CHR 0x0D,
                CHR 0x1C, CHR 0x1D, CHR 0x1E, CHR 0x1F, CHR 0x20])"

definition strip :: "string \<Rightarrow> string" where
  "strip s = rev (dropWhile is_space (rev (dropWhile is_space s)))"

definition lower_char :: "char \<Rightarrow> char" where
  "lower_char c =
     (case map_of (zip ''ABCDEFGHIJKLMNOPQRSTUVWXYZ'' ''abcdefghijklmnopqrstuvwxyz'') c of
        None \<Rightarrow> c
      | Some l \<Rightarrow> l)"

definition lower :: "string \<Rightarrow> string" where
  \<comment> \<open>\<open>str.lower()\<close> on ASCII text.\<close>
  "lower s = map lower_char s"

text \<open>
  A \<open>pathlib.Path\<close> is the list of its components: \<open>p.parent\<close> drops the last one,
  \<open>p / name\<close> appends one, \<open>str(p)\<close> and \<open>p.as_posix()\<close> join them with a slash.
\<close>

type_synonym path = "string list"

definition parent :: "path \<Rightarrow> path" where
  "parent p = butlast p"

definition str_path :: "path \<Rightarrow> string" where
  "str_path p = str_join ''/'' p"

section \<open>Render options\<close>

text \<open>
  The options dictionary \<open>opts\<close>, with the keys the modelled functions read. Every key
  is set by both endpoints before \<open>validate_opts\<close> runs, so a key is a field; the
  keys read with \<open>opts.get(key)\<close> whose value can be absent or \<open>None\<close>
  (\<open>transition_type\<close>, \<open>voiceover_mode\<close>) and the keys set only when a file was
  uploaded (\<open>voiceover_path\<close>, \<open>music_file\<close>) are optional, and \<open>sfx_items\<close> is the
  empty list when absent. A string-valued key holds a string and a numeric key a
  number: the upload endpoint declares \<open>duration\<close> and \<open>fps\<close> as ints, while
  \<open>/start_from_url\<close> copies the JSON payload into \<open>opts\<close> unconverted
  (\<open>opts = {**payload}\<close>, and \<open>setdefault\<close> leaves a key of the payload alone), so
  there they are any JSON number. The remaining keys are the extension part of the
  record, which \<open>{**opts, ...}\<close> copies.
\<close>

record sfx_item =
  item_path :: string
  item_start :: real
  item_volume :: real

record opts =
  duration_s :: real
  platform :: string
  style :: string
  cut_intensity :: string
  language :: string
  captions :: string
  resolution :: string
  content_preset :: string
  output_resolution :: string
  reframe_mode :: string
  fps :: real
  filter_preset :: string
  caption_template :: string
  caption_position :: string
  caption_size :: string
  captions_enabled :: bool
  transition_type :: "string option"
  transition_duration :: real
  audio_enhance :: bool
  audio_loudnorm :: bool
  audio_compressor :: bool
  audio_denoise :: bool
  sfx_items :: "sfx_item list"
  voiceover_enabled :: bool
  voiceover_path :: "string option"
  voiceover_speed :: real
  voiceover_mode :: "string option"
  voiceover_pre_sped :: bool
  music_enabled :: bool
  music_file :: "string option"
  music_volume :: real
  music_ducking :: bool
  ai_visuals_enabled :: bool

section \<open>Option validation (app.py)\<close>

definition ALLOWED_PLATFORMS :: "string set" where
  "ALLOWED_PLATFORMS = {''Shorts'', ''TikTok'', ''Reels''}"

definition ALLOWED_STYLES :: "string set" where
  "ALLOWED_STYLES = {''Energique'', ''Pro'', ''Storytelling'', ''Tutorial''}"

definition ALLOWED_CUTS :: "string set" where
  "ALLOWED_CUTS = {''Soft'', ''Medium'', ''Hard''}"

definition ALLOWED_LANGS :: "string set" where
  "ALLOWED_LANGS = {''FR'', ''EN''}"

definition ALLOWED_CAPTIONS :: "string set" where
  "ALLOWED_CAPTIONS = {''ON'', ''OFF''}"

definition ALLOWED_RES :: "string set" where
  "ALLOWED_RES = {''1080x1920'', ''720x1280''}"

definition ALLOWED_PRESETS :: "string set" where
  "ALLOWED_PRESETS = {''auto'', ''podcast'', ''facecam'', ''screen'', ''vlog''}"

definition ALLOWED_REFRAME :: "string set" where
  "ALLOWED_REFRAME = {''center'', ''smart''}"

definition ALLOWED_FPS :: "int set" where
  "ALLOWED_FPS = {24, 30, 60}"

definition ALLOWED_FILTERS :: "string set" where
  "ALLOWED_FILTERS =
     {''none'', ''clean'', ''cinematic'', ''vibrant'', ''bw'', ''retro'', ''sharp'', ''soft''}"

definition ALLOWED_CAPTION_TEMPLATES :: "string set" where
  "ALLOWED_CAPTION_TEMPLATES = {''tiktok_bold'', ''minimal'', ''creator'', ''high_contrast''}"

definition ALLOWED_CAPTION_POSITIONS :: "string set" where
  "ALLOWED_CAPTION_POSITIONS = {''bottom'', ''center'', ''top''}"

definition ALLOWED_CAPTION_SIZES :: "string set" where
  "ALLOWED_CAPTION_SIZES = {''sm'', ''md'', ''lg''}"

definition ALLOWED_TRANSITIONS :: "string set" where
  "ALLOWED_TRANSITIONS = {''auto'', ''none'', ''fade'', ''crossfade'', ''dip_black'', ''swipe''}"

definition ALLOWED_VOICEOVER_MODES :: "string set" where
  "ALLOWED_VOICEOVER_MODES = {''replace'', ''mix'', ''duck''}"

definition aliases :: "(string \<times> string) list" where
  "aliases =
     [(''auto (gemini)'', ''auto''),
      (''auto_gemini'', ''auto''),
      (''cross-fade'', ''crossfade''),
      (''cross fade'', ''crossfade''),
      (''dip to black'', ''dip_black''),
      (''dip_black'', ''dip_black''),
      (''swipe'', ''swipe''),
      (''fade'', ''fade''),
      (''none'', ''none''),
      (''auto'', ''auto'')]"

definition normalize_transition_type :: "string option \<Rightarrow> string" where
  "normalize_transition_type v =
     (case v of
        None \<Rightarrow> ''auto''
      | Some s \<Rightarrow>
          (let normalized = lower (strip s)
           in case map_of aliases normalized of
                Some a \<Rightarrow> a
              | None \<Rightarrow> normalized))"

definition bad_request :: "string \<Rightarrow> exn + 'a" where
  \<comment> \<open>\<open>raise HTTPException(status_code=400, detail=...)\<close>\<close>
  "bad_request detail = Inl (HTTPException 400 detail)"

definition validate_opts :: "'a opts_scheme \<Rightarrow> exn + 'a opts_scheme" where
  "validate_opts opts =
     (if duration_s opts < 30 \<or> duration_s opts > 60
        then bad_request ''Duration must be 30-60 seconds.''
      else if platform opts \<notin> ALLOWED_PLATFORMS then bad_request ''Invalid platform.''
      else if style opts \<notin> ALLOWED_STYLES then bad_request ''Invalid style.''
      else if cut_intensity opts \<notin> ALLOWED_CUTS then bad_request ''Invalid cut intensity.''
      else if language opts \<notin> ALLOWED_LANGS then bad_request ''Invalid language.''
      else if captions opts \<notin> ALLOWED_CAPTIONS then bad_request ''Invalid captions option.''
      else if resolution opts \<notin> ALLOWED_RES then bad_request ''Invalid resolution.''
      else if content_preset opts \<notin> ALLOWED_PRESETS then bad_request ''Invalid content preset.''
      else if output_resolution opts \<notin> ALLOWED_RES
        then bad_request ''Invalid output resolution.''
      else if reframe_mode opts \<notin> ALLOWED_REFRAME then bad_request ''Invalid reframe mode.''
      else if py_int (fps opts) \<notin> ALLOWED_FPS then bad_request ''Invalid fps.''
      else if filter_preset opts \<notin> ALLOWED_FILTERS then bad_request ''Invalid filter preset.''
      else if caption_template opts \<notin> ALLOWED_CAPTION_TEMPLATES
        then bad_request ''Invalid caption template.''
      else if caption_position opts \<notin> ALLOWED_CAPTION_POSITIONS
        then bad_request ''Invalid caption position.''
      else if caption_size opts \<notin> ALLOWED_CAPTION_SIZES
        then bad_request ''Invalid caption size.''
      else
        (let opts1 = opts\<lparr>transition_type :=
                           Some (normalize_transition_type (transition_type opts))\<rparr>;
             opts2 = (if transition_type opts1 \<notin> Some ` ALLOWED_TRANSITIONS
                      then opts1\<lparr>transition_type := Some ''auto''\<rparr>
                      else opts1)
         in if voiceover_mode opts2 \<notin> Some ` ALLOWED_VOICEOVER_MODES
            then bad_request ''Invalid voiceover mode.''
            else Inr opts2))"

section \<open>The FFmpeg engine (editing/ffmpeg_engine.py)\<close>

text \<open>
  The world the engine acts on: the argument vectors handed to \<open>_run\<close>, in order
  (the source appends each to the command log before it starts the process), and the
  text files the engine writes itself. What \<open>ffmpeg\<close> and \<open>ffprobe\<close> do is outside
  the program: \<open>run_ok\<close> says whether a process started in a given world exits with
  code 0, \<open>probe\<close> is the duration \<open>_probe_duration\<close> reads back (or the exception of
  its \<open>float(...)\<close>), and \<open>str_float\<close> is the text Python prints for a float in an
  f-string.
\<close>

record world =
  cmd_log :: "string list list"
  files :: "path \<rightharpoonup> string"

record env =
  run_ok :: "world \<Rightarrow> string list \<Rightarrow> bool"
  probe :: "world \<Rightarrow> path \<Rightarrow> exn + real"
  str_float :: "real \<Rightarrow> string"

definition run :: "env \<Rightarrow> string list \<Rightarrow> world \<Rightarrow> world \<times> (exn + unit)" where
  \<comment> \<open>\<open>_run\<close>: log the command, run it, raise on a non-zero return code.\<close>
  "run env cmd w =
     (w\<lparr>cmd_log := cmd_log w @ [cmd]\<rparr>,
      if run_ok env w cmd then Inr () else Inl (RuntimeError ''FFmpeg command failed.''))"

definition concat_cmd :: "path \<Rightarrow> path \<Rightarrow> string list" where
  \<comment> \<open>The argument vector of \<open>concat_clips\<close>.\<close>
  "concat_cmd concat_list output_path =
     [''ffmpeg'', ''-y'', ''-f'', ''concat'', ''-safe'', ''0'', ''-i'', str_path concat_list,
      ''-c'', ''copy'', str_path output_path]"

definition concat_clips :: "env \<Rightarrow> path list \<Rightarrow> path \<Rightarrow> world \<Rightarrow> world \<times> (exn + unit)" where
  "concat_clips env clip_paths output_path w =
     (let concat_list = parent output_path @ [''concat.txt''];
          w1 = w\<lparr>files := (files w)(concat_list \<mapsto>
                  concat (map (\<lambda>clip. ''file '' @ [CHR 0x27] @ str_path clip @ [CHR 0x27, CHR 0x0A])
                            clip_paths))\<rparr>
      in run env (concat_cmd concat_list output_path) w1)"

text \<open>
  One stage of the cross-fade graph, the f-string
  \<open>{last}[{idx}:v]xfade=transition={transition}:duration={duration}:offset={offset}[v{idx}]\<close>
  with its five holes, and the text it stands for.
\<close>

record xfade =
  xf_last :: string
  xf_idx :: nat
  xf_transition :: string
  xf_duration :: real
  xf_offset :: real

definition show_xfade :: "(real \<Rightarrow> string) \<Rightarrow> xfade \<Rightarrow> string" where
  "show_xfade fmt x =
     xf_last x @ ''['' @ str_nat (xf_idx x) @ '':v]xfade=transition='' @ xf_transition x
     @ '':duration='' @ fmt (xf_duration x) @ '':offset='' @ fmt (xf_offset x)
     @ ''[v'' @ str_nat (xf_idx x) @ '']''"

definition transitions :: "(string \<times> string) list" where
  "transitions =
     [(''fade'', ''fade''), (''crossfade'', ''fade''), (''dip_black'', ''fadeblack''),
      (''swipe'', ''wipeleft'')]"

fun probe_durations :: "env \<Rightarrow> world \<Rightarrow> path list \<Rightarrow> exn + real list" where
  \<comment> \<open>\<open>[_probe_duration(path) for path in clip_paths]\<close>\<close>
  "probe_durations env w [] = Inr []"
| "probe_durations env w (p # ps) =
     (case probe env w p of
        Inl e \<Rightarrow> Inl e
      | Inr d \<Rightarrow>
          (case probe_durations env w ps of
             Inl e \<Rightarrow> Inl e
           | Inr ds \<Rightarrow> Inr (d # ds)))"

fun xfade_loop ::
  "string \<Rightarrow> real \<Rightarrow> real list \<Rightarrow> nat list \<Rightarrow> xfade list \<Rightarrow> string \<Rightarrow> real
     \<Rightarrow> xfade list \<times> string \<times> real"
where
  \<comment> \<open>The loop over \<open>range(1, len(clip_paths))\<close> with \<open>filter_complex\<close>, \<open>last\<close>, \<open>offset\<close>.\<close>
  "xfade_loop transition duration durations [] filter_complex last_label offset =
     (filter_complex, last_label, offset)"
| "xfade_loop transition duration durations (idx # idxs) filter_complex last_label offset =
     xfade_loop transition duration durations idxs
       (filter_complex @
          [\<lparr>xf_last = last_label, xf_idx = idx, xf_transition = transition,
            xf_duration = duration, xf_offset = offset\<rparr>])
       (''[v'' @ str_nat idx @ '']'')
       (offset + (durations ! idx - duration))"

definition xfade_cmd ::
  "env \<Rightarrow> path list \<Rightarrow> xfade list \<Rightarrow> string \<Rightarrow> path \<Rightarrow> string list"
where
  \<comment> \<open>The argument vector of the cross-fade command.\<close>
  "xfade_cmd env clip_paths filter_complex last_label output_path =
     [''ffmpeg'', ''-y''] @ concat (map (\<lambda>p. [''-i'', str_path p]) clip_paths)
     @ [''-filter_complex'', str_join '';'' (map (show_xfade (str_float env)) filter_complex),
        ''-map'', last_label, ''-an'', str_path output_path]"

definition apply_transitions ::
  "env \<Rightarrow> path list \<Rightarrow> string \<Rightarrow> real \<Rightarrow> path \<Rightarrow> world \<Rightarrow> world \<times> (exn + unit)"
where
  "apply_transitions env clip_paths ttype duration output_path w =
     (if ttype = ''none'' \<or> length clip_paths < 2
      then concat_clips env clip_paths output_path w
      else
        let transition = (case map_of transitions ttype of None \<Rightarrow> ''fade'' | Some t \<Rightarrow> t)
        in case probe_durations env w clip_paths of
             Inl e \<Rightarrow> (w, Inl e)
           | Inr durations \<Rightarrow>
               (case xfade_loop transition duration durations [1..<length clip_paths] []
                       ''[0:v]'' (durations ! 0 - duration) of
                  (filter_complex, last_label, offset) \<Rightarrow>
                    run env (xfade_cmd env clip_paths filter_complex last_label output_path) w))"

text \<open>
  The joining step of \<open>render_video_pipeline\<close> (app.py, the statements from
  \<open>transition_type = opts.get("transition_type", "none")\<close> to the end of the
  \<open>try\<close>/\<open>except Exception\<close> around \<open>apply_transitions\<close>). It yields the path of the
  joined timeline, or the exception that leaves the pipeline.
\<close>

definition pipeline_transitions ::
  "env \<Rightarrow> path list \<Rightarrow> 'a opts_scheme \<Rightarrow> path \<Rightarrow> world \<Rightarrow> world \<times> (exn + path)"
where
  "pipeline_transitions env clip_paths opts run_dir w =
     (let ttype = (case transition_type opts of None \<Rightarrow> ''none'' | Some t \<Rightarrow> t);
          concat_output = run_dir @ [''concat.mp4'']
      in case apply_transitions env clip_paths ttype (transition_duration opts)
                concat_output w of
           (w1, Inr u) \<Rightarrow> (w1, Inr concat_output)
         | (w1, Inl e) \<Rightarrow>
             (case concat_clips env clip_paths concat_output w1 of
                (w2, Inr u) \<Rightarrow> (w2, Inr concat_output)
              | (w2, Inl e2) \<Rightarrow> (w2, Inl e2)))"

subsection \<open>The audio graph of \<open>render_final\<close>\<close>

text \<open>
  A stage of the audio graph is one of the f-strings \<open>render_final\<close> appends to
  \<open>filter_complex\<close>; a constructor keeps the holes of its f-string, pad labels with
  their brackets, and \<open>show_afilter\<close> is the text. In FFmpeg's \<open>sidechaincompress\<close>
  the first input pad is the signal that is compressed and the second one is the
  side chain that controls the compression.
  \<^item> \<open>Atempo idx speed\<close> is \<open>[{idx}:a]atempo={speed}[vo]\<close>;
  \<^item> \<open>Amix inputs out\<close> is
    \<open>{inputs}amix=inputs={len(inputs)}:duration=first:dropout_transition=2{out}\<close>;
  \<^item> \<open>Sidechaincompress main side out\<close> is
    \<open>{main}{side}sidechaincompress=threshold=0.08:ratio=8{out}\<close>;
  \<^item> \<open>Adelay idx ms volume label\<close> is
    \<open>[{idx}:a]adelay={ms}|{ms},volume={volume}[{label}]\<close>;
  \<^item> \<open>Volume idx vol\<close> is \<open>[{idx}:a]volume={vol}[music]\<close>;
  \<^item> \<open>Enhance src chain\<close> is \<open>{src}{chain}[afinal]\<close>.
\<close>

datatype afilter =
    Atempo nat real
  | Amix "string list" string
  | Sidechaincompress string string string
  | Adelay nat int real string
  | Volume nat real
  | Enhance string string

definition str_int :: "int \<Rightarrow> string" where
  "str_int i = (if i < 0 then ''-'' @ str_nat (nat (- i)) else str_nat (nat i))"

fun show_afilter :: "(real \<Rightarrow> string) \<Rightarrow> afilter \<Rightarrow> string" where
  "show_afilter fmt (Atempo idx speed) =
     ''['' @ str_nat idx @ '':a]atempo='' @ fmt speed @ ''[vo]''"
| "show_afilter fmt (Amix inputs out) =
     concat inputs @ ''amix=inputs='' @ str_nat (length inputs)
     @ '':duration=first:dropout_transition=2'' @ out"
| "show_afilter fmt (Sidechaincompress main side out) =
     main @ side @ ''sidechaincompress=threshold=0.08:ratio=8'' @ out"
| "show_afilter fmt (Adelay idx ms volume label) =
     ''['' @ str_nat idx @ '':a]adelay='' @ str_int ms @ ''|'' @ str_int ms
     @ '',volume='' @ fmt volume @ ''['' @ label @ '']''"
| "show_afilter fmt (Volume idx vol) =
     ''['' @ str_nat idx @ '':a]volume='' @ fmt vol @ ''[music]''"
| "show_afilter fmt (Enhance src chain) = src @ chain @ ''[afinal]''"

fun is_atempo :: "afilter \<Rightarrow> bool" where
  "is_atempo (Atempo idx speed) = True"
| "is_atempo (Amix inputs out) = False"
| "is_atempo (Sidechaincompress main side out) = False"
| "is_atempo (Adelay idx ms volume label) = False"
| "is_atempo (Volume idx vol) = False"
| "is_atempo (Enhance src chain) = False"

definition truthy :: "string option \<Rightarrow> bool" where
  \<comment> \<open>Python's truth value of a string or \<open>None\<close>.\<close>
  "truthy v = (case v of None \<Rightarrow> False | Some s \<Rightarrow> s \<noteq> [])"

definition voiceover_input :: "'a opts_scheme \<Rightarrow> string option" where
  \<comment> \<open>\<open>opts.get("voiceover_path") if opts.get("voiceover_enabled") else None\<close>\<close>
  "voiceover_input opts = (if voiceover_enabled opts then voiceover_path opts else None)"

definition music_input :: "'a opts_scheme \<Rightarrow> string option" where
  \<comment> \<open>\<open>opts.get("music_file") if opts.get("music_enabled") else None\<close>\<close>
  "music_input opts = (if music_enabled opts then music_file opts else None)"

definition voiceover_index :: "'a opts_scheme \<Rightarrow> nat option" where
  \<comment> \<open>\<open>voiceover_idx\<close>: the voiceover is the second input of the command.\<close>
  "voiceover_index opts = (if truthy (voiceover_input opts) then Some 1 else None)"

definition music_index :: "'a opts_scheme \<Rightarrow> nat option" where
  \<comment> \<open>\<open>music_idx = 2 if voiceover_path else 1\<close>\<close>
  "music_index opts =
     (if truthy (music_input opts)
      then Some (if truthy (voiceover_input opts) then 2 else 1)
      else None)"

definition audio_filters :: "'a opts_scheme \<Rightarrow> string list" where
  "audio_filters opts =
     (if audio_enhance opts then [''loudnorm'', ''compand''] else [])
     @ (if audio_loudnorm opts then [''loudnorm''] else [])
     @ (if audio_compressor opts then [''compand''] else [])
     @ (if audio_denoise opts then [''afftdn''] else [])"

definition audio_filter_arg :: "'a opts_scheme \<Rightarrow> string option" where
  \<comment> \<open>\<open>",".join(audio_filters) if audio_filters else None\<close>\<close>
  "audio_filter_arg opts =
     (if audio_filters opts = [] then None else Some (str_join '','' (audio_filters opts)))"

text \<open>
  The voiceover part of the graph: the stages appended and \<open>voice_label\<close>. A
  \<open>voiceover_mode\<close> that is absent reads as \<open>"replace"\<close>; after \<open>validate_opts\<close> it
  is one of the three mode names.
\<close>

definition voice_stages :: "'a opts_scheme \<Rightarrow> afilter list \<times> string" where
  "voice_stages opts =
     (case voiceover_index opts of
        None \<Rightarrow> ([], ''[0:a]'')
      | Some voiceover_idx \<Rightarrow>
          (case (if \<not> voiceover_pre_sped opts \<and> \<bar>voiceover_speed opts - 1\<bar> > 0.01
                 then ([Atempo voiceover_idx (max 0.5 (min 2 (voiceover_speed opts)))],
                       ''[vo]'')
                 else ([], ''['' @ str_nat voiceover_idx @ '':a]'')) of
             (tempo, voice_input) \<Rightarrow>
               (let mode = (case voiceover_mode opts of None \<Rightarrow> ''replace'' | Some m \<Rightarrow> m)
                in if mode = ''replace'' then (tempo, voice_input)
                   else if mode = ''mix''
                     then (tempo @ [Amix [''[0:a]'', voice_input] ''[voice]''], ''[voice]'')
                   else (tempo @ [Sidechaincompress ''[0:a]'' voice_input ''[ducked]'',
                                  Amix [''[ducked]'', voice_input] ''[voice]''],
                         ''[voice]''))))"

text \<open>The sound effects: one delayed, scaled stage each, then the mix with the voice.\<close>

definition sfx_stages :: "'a opts_scheme \<Rightarrow> string \<Rightarrow> afilter list \<times> string" where
  "sfx_stages opts voice_label =
     (if sfx_items opts = [] then ([], voice_label)
      else
        let sfx_start =
              (case music_index opts of
                 Some m \<Rightarrow> m + 1
               | None \<Rightarrow> (case voiceover_index opts of Some v \<Rightarrow> v + 1 | None \<Rightarrow> 1));
            numbered = enumerate 0 (sfx_items opts);
            delays = map (\<lambda>(offset, item).
                       Adelay (sfx_start + offset) (py_int (item_start item * 1000))
                         (item_volume item) (''sfx'' @ str_nat offset)) numbered;
            sfx_labels = map (\<lambda>(offset, item). ''[sfx'' @ str_nat offset @ '']'') numbered
        in (delays @ [Amix (voice_label # sfx_labels) ''[voice_sfx]''], ''[voice_sfx]''))"

text \<open>The music: scaled, then ducked under the voice or mixed with it.\<close>

definition music_stages :: "'a opts_scheme \<Rightarrow> string \<Rightarrow> afilter list \<times> string" where
  "music_stages opts voice_label =
     (case music_index opts of
        None \<Rightarrow> ([], voice_label)
      | Some music_idx \<Rightarrow>
          (Volume music_idx (music_volume opts)
           # (if music_ducking opts
              then [Sidechaincompress ''[music]'' voice_label ''[ducked]'',
                    Amix [voice_label, ''[ducked]''] ''[aout]'']
              else [Amix [voice_label, ''[music]''] ''[aout]'']),
           ''[aout]''))"

definition audio_graph :: "'a opts_scheme \<Rightarrow> afilter list \<times> string" where
  \<comment> \<open>\<open>filter_complex\<close> and \<open>audio_map\<close> as \<open>render_final\<close> leaves them.\<close>
  "audio_graph opts =
     (case voice_stages opts of
        (fc1, voice_label1) \<Rightarrow>
          (case sfx_stages opts voice_label1 of
             (fc2, voice_label2) \<Rightarrow>
               (case music_stages opts voice_label2 of
                  (fc3, audio_map) \<Rightarrow>
                    (case audio_filter_arg opts of
                       None \<Rightarrow> (fc1 @ fc2 @ fc3, audio_map)
                     | Some chain \<Rightarrow>
                         (fc1 @ fc2 @ fc3 @ [Enhance audio_map chain], ''[afinal]'')))))"

definition escape_colons :: "string \<Rightarrow> string" where
  \<comment> \<open>\<open>.replace(':', '\\\\:')\<close>: a colon becomes two backslashes and a colon.\<close>
  "escape_colons s =
     concat (map (\<lambda>c. if c = CHR 0x3A then [CHR 0x5C, CHR 0x5C, CHR 0x3A] else [c]) s)"

definition render_final_cmd ::
  "env \<Rightarrow> path \<Rightarrow> path option \<Rightarrow> 'a opts_scheme \<Rightarrow> path \<Rightarrow> string list"
where
  \<comment> \<open>The argument vector \<open>render_final\<close> builds.\<close>
  "render_final_cmd env base_path captions_ass opts output_path =
     [''ffmpeg'', ''-y'', ''-i'', str_path base_path]
     @ (case voiceover_input opts of
          None \<Rightarrow> []
        | Some v \<Rightarrow> if v = [] then [] else [''-i'', v])
     @ (case music_input opts of
          None \<Rightarrow> []
        | Some m \<Rightarrow> if m = [] then [] else [''-stream_loop'', ''-1'', ''-i'', m])
     @ concat (map (\<lambda>item. [''-i'', item_path item]) (sfx_items opts))
     @ (case captions_ass of
          None \<Rightarrow> []
        | Some c \<Rightarrow>
            [''-vf'', ''subtitles='' @ [CHR 0x27] @ escape_colons (str_path c) @ [CHR 0x27]])
     @ (case audio_graph opts of
          (filter_complex, audio_map) \<Rightarrow>
            if filter_complex \<noteq> []
            then [''-filter_complex'',
                  str_join '';'' (map (show_afilter (str_float env)) filter_complex),
                  ''-map'', ''0:v'', ''-map'', audio_map]
            else (case audio_filter_arg opts of
                    None \<Rightarrow> []
                  | Some chain \<Rightarrow> [''-af'', chain]))
     @ [''-c:v'', ''libx264'', ''-preset'', ''slow'', ''-crf'', ''18'', ''-c:a'', ''aac'',
        ''-b:a'', ''192k'', str_path output_path]"

definition render_final ::
  "env \<Rightarrow> path \<Rightarrow> path option \<Rightarrow> 'a opts_scheme \<Rightarrow> path \<Rightarrow> world \<Rightarrow> world \<times> (exn + unit)"
where
  "render_final env base_path captions_ass opts output_path w =
     run env (render_final_cmd env base_path captions_ass opts output_path) w"

section \<open>The job orchestrator (app.py, \<open>process_job\<close>)\<close>

text \<open>
  The rendering phase of \<open>process_job\<close>, from \<open>update_job(job_id, status="rendering",
  progress=80)\<close> to the handler \<open>except Exception as exc\<close> that marks the job failed.
  \<open>render_video_pipeline\<close> and \<open>inspect_video\<close> start external processes, so they are
  parameters: any function of the world \<open>'w\<close>. The pipeline writes \<open>target_width\<close> and
  \<open>target_height\<close> into the dictionary it is given, so it also returns that dictionary
  as it leaves it; its third result is the output path or the exception it raises. The
  state threaded through the phase is the world together with a journal of the calls
  of the pipeline, one entry per call with the arguments of that call.
\<close>

record ('s, 'o, 'p) attempt =
  att_source :: path
  att_segments :: "'s list"
  att_opts :: "'o opts_scheme"
  att_plan :: 'p
  att_run_dir :: path

record video_info =
  width :: "int option"
  height :: "int option"

definition info_get :: "int option \<Rightarrow> int" where
  \<comment> \<open>\<open>info.get(key, 0)\<close>\<close>
  "info_get v = (case v of None \<Rightarrow> 0 | Some n \<Rightarrow> n)"

record job =
  status :: string
  progress :: nat
  error :: "string option"
  output' :: "string option"

fun str_exn :: "exn \<Rightarrow> string" where
  \<comment> \<open>\<open>str(exc)\<close>\<close>
  "str_exn (KeyError k) = [CHR 0x27] @ k @ [CHR 0x27]"
| "str_exn (RuntimeError m) = m"
| "str_exn (HTTPException code detail) = str_nat code @ '': '' @ detail"
| "str_exn (ExternalError m) = m"

definition attempt_render ::
  "('w \<Rightarrow> path \<Rightarrow> 's list \<Rightarrow> 'o opts_scheme \<Rightarrow> 'p \<Rightarrow> path
      \<Rightarrow> 'w \<times> 'o opts_scheme \<times> (exn + path))
   \<Rightarrow> path \<Rightarrow> 's list \<Rightarrow> 'o opts_scheme \<Rightarrow> 'p \<Rightarrow> path
   \<Rightarrow> ('s, 'o, 'p) attempt list \<times> 'w
   \<Rightarrow> (('s, 'o, 'p) attempt list \<times> 'w) \<times> 'o opts_scheme \<times> (exn + path)"
where
  \<comment> \<open>One call \<open>render_video_pipeline(render_source, segments, opts, plan, run_dir)\<close>.\<close>
  "attempt_render pipeline render_source segments opts plan run_dir st =
     (case pipeline (snd st) render_source segments opts plan run_dir of
        (w1, opts1, r) \<Rightarrow>
          ((fst st @ [\<lparr>att_source = render_source, att_segments = segments, att_opts = opts,
                        att_plan = plan, att_run_dir = run_dir\<rparr>], w1),
           opts1, r))"

definition render_with_fallback ::
  "('w \<Rightarrow> path \<Rightarrow> 's list \<Rightarrow> 'o opts_scheme \<Rightarrow> 'p \<Rightarrow> path
      \<Rightarrow> 'w \<times> 'o opts_scheme \<times> (exn + path))
   \<Rightarrow> path \<Rightarrow> 's list \<Rightarrow> 'o opts_scheme \<Rightarrow> 'p \<Rightarrow> path
   \<Rightarrow> ('s, 'o, 'p) attempt list \<times> 'w
   \<Rightarrow> (('s, 'o, 'p) attempt list \<times> 'w) \<times> (exn + path)"
where
  \<comment> \<open>The nested \<open>try\<close>/\<open>except Exception\<close> around the three calls.\<close>
  "render_with_fallback pipeline render_source segments opts plan run_dir st =
     (case attempt_render pipeline render_source segments opts plan run_dir st of
        (st1, opts1, Inr output_path) \<Rightarrow> (st1, Inr output_path)
      | (st1, opts1, Inl e1) \<Rightarrow>
          (let fallback_opts =
                 opts1\<lparr>ai_visuals_enabled := False, transition_type := Some ''none''\<rparr>
           in case attempt_render pipeline render_source segments fallback_opts plan
                     run_dir st1 of
                (st2, fallback_opts2, Inr output_path) \<Rightarrow> (st2, Inr output_path)
              | (st2, fallback_opts2, Inl e2) \<Rightarrow>
                  (case attempt_render pipeline render_source segments
                          (fallback_opts2\<lparr>captions_enabled := False\<rparr>) plan run_dir st2 of
                     (st3, fallback_opts3, r) \<Rightarrow> (st3, r))))"

definition integrity_check ::
  "('w \<Rightarrow> path \<Rightarrow> exn + video_info) \<Rightarrow> 'w \<Rightarrow> path \<Rightarrow> path \<Rightarrow> exn + unit"
where
  \<comment> \<open>The comparison of the output's frame with the source's after the rendering.\<close>
  "integrity_check inspect_video w output_path render_source =
     (case inspect_video w output_path of
        Inl e \<Rightarrow> Inl e
      | Inr output_info \<Rightarrow>
          (case inspect_video w render_source of
             Inl e \<Rightarrow> Inl e
           | Inr source_info \<Rightarrow>
               if info_get (width output_info) < info_get (width source_info)
                  \<or> info_get (height output_info) < info_get (height source_info)
               then Inl (RuntimeError ''Output resolution lower than source.'')
               else Inr ()))"

definition process_job_render ::
  "('w \<Rightarrow> path \<Rightarrow> 's list \<Rightarrow> 'o opts_scheme \<Rightarrow> 'p \<Rightarrow> path
      \<Rightarrow> 'w \<times> 'o opts_scheme \<times> (exn + path))
   \<Rightarrow> ('w \<Rightarrow> path \<Rightarrow> exn + video_info)
   \<Rightarrow> path \<Rightarrow> 's list \<Rightarrow> 'o opts_scheme \<Rightarrow> 'p \<Rightarrow> path
   \<Rightarrow> job \<Rightarrow> ('s, 'o, 'p) attempt list \<times> 'w
   \<Rightarrow> (('s, 'o, 'p) attempt list \<times> 'w) \<times> job"
where
  "process_job_render pipeline inspect_video render_source segments opts plan run_dir j st =
     (let j1 = j\<lparr>status := ''rendering'', progress := 80\<rparr>
      in case render_with_fallback pipeline render_source segments opts plan run_dir st of
           (st1, Inl exc) \<Rightarrow>
             (st1, j1\<lparr>status := ''error'', progress := 100, error := Some (str_exn exc)\<rparr>)
         | (st1, Inr output_path) \<Rightarrow>
             (case integrity_check inspect_video (snd st1) output_path render_source of
                Inl exc \<Rightarrow>
                  (st1, j1\<lparr>status := ''error'', progress := 100,
                             error := Some (str_exn exc)\<rparr>)
              | Inr u \<Rightarrow>
                  (st1, j1\<lparr>status := ''done'', progress := 100,
                             output' := Some (str_path output_path)\<rparr>)))"

section \<open>Example inputs\<close>

text \<open>
  The plan of the specification's example: the third segment overlaps the second.
\<close>

definition plan_segments :: "segment list" where
  "plan_segments =
     [\<lparr>start = Some 0, end' = Some 5\<rparr>, \<lparr>start = Some 5, end' = Some 20\<rparr>,
      \<lparr>start = Some 18, end' = Some 30\<rparr>]"

text \<open>
  Two segments of 40 and 35 seconds, 75 seconds together; and a plan whose first
  segment ends 0.2 seconds short of the 30-second floor.
\<close>

definition long_segments :: "segment list" where
  "long_segments = [\<lparr>start = Some 0, end' = Some 40\<rparr>, \<lparr>start = Some 50, end' = Some 85\<rparr>]"

definition short_head_segments :: "segment list" where
  "short_head_segments =
     [\<lparr>start = Some 0, end' = Some 29.8\<rparr>, \<lparr>start = Some 30, end' = Some 100\<rparr>]"

text \<open>
  The options \<open>/start_from_url\<close> builds for a payload that holds nothing but the URL:
  every key at its default. The variant below it has an uploaded voiceover.
\<close>

definition url_opts :: opts where
  "url_opts =
     \<lparr>duration_s = 45, platform = ''Shorts'', style = ''Storytelling'',
      cut_intensity = ''Medium'', language = ''EN'', captions = ''ON'',
      resolution = ''1080x1920'', content_preset = ''auto'',
      output_resolution = ''1080x1920'', reframe_mode = ''center'', fps = 30,
      filter_preset = ''none'', caption_template = ''tiktok_bold'',
      caption_position = ''bottom'', caption_size = ''md'', captions_enabled = True,
      transition_type = Some ''none'', transition_duration = 0.3, audio_enhance = False,
      audio_loudnorm = False, audio_compressor = False, audio_denoise = False,
      sfx_items = [], voiceover_enabled = False, voiceover_path = None,
      voiceover_speed = 1, voiceover_mode = Some ''replace'', voiceover_pre_sped = False,
      music_enabled = False, music_file = None, music_volume = 0.15,
      music_ducking = False, ai_visuals_enabled = False\<rparr>"

definition voiceover_opts :: opts where
  "voiceover_opts =
     url_opts\<lparr>voiceover_enabled := True, voiceover_path := Some ''runs/job/voiceover_vo.mp3''\<rparr>"

text \<open>
  An environment in which every command with a filter graph fails and every other
  command succeeds, three clips of 5, 15 and 10 seconds, and the world before any
  command has run.
\<close>

definition example_env :: env where
  "example_env =
     \<lparr>run_ok = (\<lambda>w cmd. ''-filter_complex'' \<notin> set cmd),
      probe = (\<lambda>w p. Inr (if p = [''run'', ''clip_0.mp4''] then 5
                          else if p = [''run'', ''clip_1.mp4''] then 15 else 10)),
      str_float = (\<lambda>r. ''?'')\<rparr>"

definition example_clips :: "path list" where
  "example_clips = [[''run'', ''clip_0.mp4''], [''run'', ''clip_1.mp4''], [''run'', ''clip_2.mp4'']]"

definition empty_world :: world where
  "empty_world = \<lparr>cmd_log = [], files = Map.empty\<rparr>"

text \<open>
  A pipeline that raises while AI visuals are enabled, raises while captions are
  enabled, and otherwise writes \<open>final.mp4\<close>; its world counts the calls. The
  inspection reports a 480x854 frame for the rendered file and 1080x1920 for every
  other file.
\<close>

definition example_pipeline ::
  "nat \<Rightarrow> path \<Rightarrow> segment list \<Rightarrow> opts \<Rightarrow> unit \<Rightarrow> path \<Rightarrow> nat \<times> opts \<times> (exn + path)"
where
  "example_pipeline w source_path segments opts plan run_dir =
     (Suc w, opts,
      if ai_visuals_enabled opts then Inl (ExternalError ''overlay generation failed'')
      else if captions_enabled opts then Inl (ExternalError ''subtitle file failed'')
      else Inr (run_dir @ [''final.mp4'']))"

definition example_inspect :: "nat \<Rightarrow> path \<Rightarrow> exn + video_info" where
  "example_inspect w p =
     (if p = [''run'', ''final.mp4''] then Inr \<lparr>width = Some 480, height = Some 854\<rparr>
      else Inr \<lparr>width = Some 1080, height = Some 1920\<rparr>)"

definition queued_job :: job where
  "queued_job = \<lparr>status = ''queued'', progress = 10, error = None, output' = None\<rparr>"

section \<open>Properties of \<open>normalize_segments\<close>\<close>

lemma normalize_loop_acc:
  "normalize_loop ml xs acc le = acc @ normalize_loop ml xs [] le"
proof (induction xs arbitrary: acc le)
  case Nil
  show ?case by simp
next
  case (Cons x xs)
  let ?y = "x\<lparr>start := Some (if get_float (start x) < le then le else get_float (start x)),
               end' := Some (get_float (end' x))\<rparr>"
  show ?case
    using Cons.IH [of "acc @ [?y]" "get_float (end' x)"]
      Cons.IH [of "[?y]" "get_float (end' x)"] Cons.IH [of acc le]
    by (simp add: Let_def)
qed

lemma normalize_loop_Cons:
  "normalize_loop ml (x # xs) [] le =
     (if get_float (end' x) \<le> get_float (start x) then normalize_loop ml xs [] le
      else if get_float (end' x) - max (get_float (start x)) le < ml
        then normalize_loop ml xs [] le
      else x\<lparr>start := Some (max (get_float (start x)) le), end' := Some (get_float (end' x))\<rparr>
           # normalize_loop ml xs [] (get_float (end' x)))"
  using normalize_loop_acc [of ml xs
      "[x\<lparr>start := Some (max (get_float (start x)) le), end' := Some (get_float (end' x))\<rparr>]"
      "get_float (end' x)"]
  by (auto simp: Let_def max_def)

lemma chained_normalize_loop: "chained ml le (normalize_loop ml xs [] le)"
  by (induction xs arbitrary: le)
     (auto simp: normalize_loop_Cons get_float_def has_keys_def the_len_def
           simp del: normalize_loop.simps(2))

lemma chained_lower:
  "chained ml le xs \<Longrightarrow> 0 \<le> ml \<Longrightarrow> \<forall>x\<in>set xs. le \<le> get_float (start x)"
  by (induction xs arbitrary: le) (fastforce simp: the_len_def)+

lemma chained_sorted:
  "chained ml le xs \<Longrightarrow> 0 \<le> ml \<Longrightarrow> sorted (map (\<lambda>s. get_float (start s)) xs)"
proof (induction xs arbitrary: le)
  case Nil
  show ?case by simp
next
  case (Cons x xs)
  have c: "chained ml (get_float (end' x)) xs" using Cons.prems by simp
  have "\<forall>y\<in>set xs. get_float (end' x) \<le> get_float (start y)"
    using chained_lower [OF c Cons.prems(2)] .
  moreover have "get_float (start x) \<le> get_float (end' x)"
    using Cons.prems by (simp add: the_len_def)
  ultimately have "\<forall>y\<in>set xs. get_float (start x) \<le> get_float (start y)" by fastforce
  with Cons.IH [OF c Cons.prems(2)] show ?case by simp
qed

lemma chained_successively:
  "chained ml le xs \<Longrightarrow>
     successively (\<lambda>a b. get_float (end' a) \<le> get_float (start b)) xs"
  by (induction xs arbitrary: le) (auto simp: successively_Cons neq_Nil_conv)

lemma chained_lengths:
  "chained ml le xs \<Longrightarrow> \<forall>x\<in>set xs. has_keys x \<and> ml \<le> the_len x"
  by (induction xs arbitrary: le) auto

lemma chained_fixpoint:
  "chained ml le xs \<Longrightarrow> 0 < ml \<Longrightarrow> normalize_loop ml xs [] le = xs"
  by (induction xs arbitrary: le)
     (auto simp: normalize_loop_Cons get_float_def max_def has_keys_def the_len_def
           simp del: normalize_loop.simps(2))

lemma normalize_loop_origin:
  "i < length (normalize_loop ml xs [] le) \<Longrightarrow>
     \<exists>seg\<in>set xs. get_float (start seg) < get_float (end' seg) \<and>
       normalize_loop ml xs [] le ! i =
         seg\<lparr>start := Some (max (get_float (start seg))
                    (if i = 0 then le else get_float (end' (normalize_loop ml xs [] le ! (i - 1))))),
             end' := Some (get_float (end' seg))\<rparr>"
proof (induction xs arbitrary: le i)
  case Nil
  then show ?case by simp
next
  case (Cons x xs)
  let ?s = "get_float (start x)" and ?e = "get_float (end' x)"
  show ?case
  proof (cases "?e \<le> ?s \<or> ?e - max ?s le < ml")
    case True
    then have eq: "normalize_loop ml (x # xs) [] le = normalize_loop ml xs [] le"
      by (auto simp: normalize_loop_Cons simp del: normalize_loop.simps(2))
    show ?thesis using Cons.IH [of i le] Cons.prems unfolding eq by auto
  next
    case False
    let ?y = "x\<lparr>start := Some (max ?s le), end' := Some ?e\<rparr>"
    from False have eq: "normalize_loop ml (x # xs) [] le = ?y # normalize_loop ml xs [] ?e"
      by (auto simp: normalize_loop_Cons simp del: normalize_loop.simps(2))
    show ?thesis
    proof (cases i)
      case 0
      then show ?thesis using False unfolding eq by auto
    next
      case (Suc j)
      then have j: "j < length (normalize_loop ml xs [] ?e)"
        using Cons.prems unfolding eq by simp
      have ye: "get_float (end' ?y) = ?e" by (simp add: get_float_def)
      from Cons.IH [OF j] obtain seg where seg: "seg \<in> set xs"
        "get_float (start seg) < get_float (end' seg)"
        "normalize_loop ml xs [] ?e ! j =
           seg\<lparr>start := Some (max (get_float (start seg))
                    (if j = 0 then ?e else get_float (end' (normalize_loop ml xs [] ?e ! (j - 1))))),
               end' := Some (get_float (end' seg))\<rparr>" by blast
      have prev: "(if j = 0 then ?e else get_float (end' (normalize_loop ml xs [] ?e ! (j - 1))))
                  = get_float (end' ((?y # normalize_loop ml xs [] ?e) ! j))"
        using ye by (cases j) simp_all
      show ?thesis unfolding eq Suc using seg prev by auto
    qed
  qed
qed

text \<open>
  Claim C2, as the code has it. For every segment list and every \<open>min_len \<ge> 0\<close> the
  output of \<open>normalize_segments\<close> is sorted ascending by start, no segment starts before
  the previous one ends, every segment has both keys and is at least \<open>min_len\<close> long,
  and each output segment is an input segment with \<open>end > start\<close> (a degenerate one is
  dropped) that keeps its end and its other keys and whose start is the larger of its
  own start and the end of the previous output segment (0 for the first).
  The bound on \<open>min_len\<close> is needed for the order only: with a negative \<open>min_len\<close> a
  clamped segment may end before it starts, and the next one may start before it.
\<close>

theorem normalize_segments_ordered:
  assumes "0 \<le> min_len"
  shows "sorted (map (\<lambda>s. get_float (start s)) (normalize_segments segments min_len))
       \<and> successively (\<lambda>a b. get_float (end' a) \<le> get_float (start b))
           (normalize_segments segments min_len)
       \<and> (\<forall>s\<in>set (normalize_segments segments min_len).
            start s \<noteq> None \<and> end' s \<noteq> None
            \<and> min_len \<le> get_float (end' s) - get_float (start s))
       \<and> (\<forall>i<length (normalize_segments segments min_len).
            \<exists>seg\<in>set segments.
              get_float (start seg) < get_float (end' seg)
              \<and> normalize_segments segments min_len ! i =
                  seg\<lparr>start := Some (max (get_float (start seg))
                           (if i = 0 then 0
                            else get_float (end' (normalize_segments segments min_len ! (i - 1))))),
                      end' := Some (get_float (end' seg))\<rparr>)"
proof -
  let ?out = "normalize_segments segments min_len"
  let ?ord = "sort_key (\<lambda>s. get_float (start s)) segments"
  have out: "?out = normalize_loop min_len ?ord [] 0" by (simp add: normalize_segments_def)
  have c: "chained min_len 0 ?out" unfolding out by (rule chained_normalize_loop)
  have 1: "sorted (map (\<lambda>s. get_float (start s)) ?out)" using chained_sorted [OF c assms] .
  have 2: "successively (\<lambda>a b. get_float (end' a) \<le> get_float (start b)) ?out"
    using chained_successively [OF c] .
  have 3: "\<forall>s\<in>set ?out. start s \<noteq> None \<and> end' s \<noteq> None
             \<and> min_len \<le> get_float (end' s) - get_float (start s)"
    using chained_lengths [OF c] by (simp add: has_keys_def the_len_def)
  have 4: "\<forall>i<length ?out. \<exists>seg\<in>set segments.
              get_float (start seg) < get_float (end' seg)
              \<and> ?out ! i =
                  seg\<lparr>start := Some (max (get_float (start seg))
                           (if i = 0 then 0 else get_float (end' (?out ! (i - 1))))),
                      end' := Some (get_float (end' seg))\<rparr>"
  proof (intro allI impI)
    fix i assume "i < length ?out"
    then have "i < length (normalize_loop min_len ?ord [] 0)" unfolding out .
    from normalize_loop_origin [OF this]
    show "\<exists>seg\<in>set segments. get_float (start seg) < get_float (end' seg)
              \<and> ?out ! i =
                  seg\<lparr>start := Some (max (get_float (start seg))
                           (if i = 0 then 0 else get_float (end' (?out ! (i - 1))))),
                      end' := Some (get_float (end' seg))\<rparr>"
      unfolding out by simp
  qed
  from 1 2 3 4 show ?thesis by blast
qed

theorem normalize_segments_ordered_witness:
  "normalize_segments plan_segments 0.4 =
     [\<lparr>start = Some 0, end' = Some 5\<rparr>, \<lparr>start = Some 5, end' = Some 20\<rparr>,
      \<lparr>start = Some 20, end' = Some 30\<rparr>]
   \<and> sorted (map (\<lambda>s. get_float (start s)) (normalize_segments plan_segments 0.4))
   \<and> successively (\<lambda>a b. get_float (end' a) \<le> get_float (start b))
        (normalize_segments plan_segments 0.4)"
proof -
  have h: "(0::real) \<le> 0.4" by simp
  have "normalize_segments plan_segments 0.4 =
     [\<lparr>start = Some 0, end' = Some 5\<rparr>, \<lparr>start = Some 5, end' = Some 20\<rparr>,
      \<lparr>start = Some 20, end' = Some 30\<rparr>]"
    by (simp add: normalize_segments_def plan_segments_def get_float_def)
  then show ?thesis using normalize_segments_ordered [OF h, of plan_segments] by blast
qed

theorem normalize_segments_unsorted_counterexample:
  "\<not> sorted (map (\<lambda>s. get_float (start s))
       (normalize_segments
          [\<lparr>start = Some 0, end' = Some 10\<rparr>, \<lparr>start = Some 1, end' = Some 5\<rparr>,
           \<lparr>start = Some 6, end' = Some 20\<rparr>] (- 10)))"
  by (simp add: normalize_segments_def get_float_def)

text \<open>
  Claim C9, as the code has it. For every segment list and every \<open>min_len > 0\<close>,
  normalizing the output of \<open>normalize_segments\<close> again returns it unchanged. With
  \<open>min_len = 0\<close> a segment clamped to zero length is kept by the first pass and
  dropped as degenerate by the second.
\<close>

theorem normalize_segments_idempotent:
  assumes "0 < min_len"
  shows "normalize_segments (normalize_segments segments min_len) min_len
         = normalize_segments segments min_len"
proof -
  let ?out = "normalize_segments segments min_len"
  have c: "chained min_len 0 ?out"
    unfolding normalize_segments_def by (rule chained_normalize_loop)
  have "sorted (map (\<lambda>s. get_float (start s)) ?out)"
    using chained_sorted [OF c] assms by simp
  then have "sort_key (\<lambda>s. get_float (start s)) ?out = ?out"
    by (rule sort_key_id_if_sorted)
  then have "normalize_segments ?out min_len = normalize_loop min_len ?out [] 0"
    by (simp add: normalize_segments_def)
  also have "\<dots> = ?out" using chained_fixpoint [OF c assms] .
  finally show ?thesis .
qed

theorem normalize_segments_idempotent_witness:
  "normalize_segments (normalize_segments plan_segments 0.4) 0.4
     = [\<lparr>start = Some 0, end' = Some 5\<rparr>, \<lparr>start = Some 5, end' = Some 20\<rparr>,
        \<lparr>start = Some 20, end' = Some 30\<rparr>]"
proof -
  have h: "(0::real) < 0.4" by simp
  have "normalize_segments plan_segments 0.4 =
     [\<lparr>start = Some 0, end' = Some 5\<rparr>, \<lparr>start = Some 5, end' = Some 20\<rparr>,
      \<lparr>start = Some 20, end' = Some 30\<rparr>]"
    by (simp add: normalize_segments_def plan_segments_def get_float_def)
  then show ?thesis using normalize_segments_idempotent [OF h, of plan_segments] by simp
qed

theorem normalize_segments_not_idempotent_counterexample:
  "normalize_segments
     (normalize_segments
        [\<lparr>start = Some 0, end' = Some 10\<rparr>, \<lparr>start = Some 5, end' = Some 10\<rparr>] 0) 0
   \<noteq> normalize_segments
        [\<lparr>start = Some 0, end' = Some 10\<rparr>, \<lparr>start = Some 5, end' = Some 10\<rparr>] 0"
  by (simp add: normalize_segments_def get_float_def)

section \<open>Properties of \<open>clamp_duration_to_range\<close>\<close>

lemma seg_len_has_keys: "has_keys seg \<Longrightarrow> seg_len seg = Inr (the_len seg)"
  by (auto simp: has_keys_def seg_len_def the_len_def get_float_def)

lemma seg_len_Inr: "seg_len seg = Inr l \<Longrightarrow> has_keys seg \<and> l = the_len seg"
  by (auto simp: has_keys_def seg_len_def the_len_def get_float_def split: option.splits)

lemma sum_len_has_keys:
  "list_all has_keys xs \<Longrightarrow> sum_len xs acc = Inr (acc + sum_list (map the_len xs))"
  by (induction xs arbitrary: acc) (simp_all add: seg_len_has_keys)

lemma trim_loop_returns:
  "list_all has_keys xs \<Longrightarrow> \<exists>tr r. trim_loop t m xs acc rn = Inr (tr, r)"
  by (induction xs arbitrary: acc rn) (auto simp: seg_len_has_keys Let_def has_keys_def)

lemma trim_loop_inv:
  "trim_loop t m xs acc rn = Inr (tr, r) \<Longrightarrow>
     \<exists>added. tr = acc @ added \<and> list_all has_keys added
        \<and> r = rn + sum_list (map the_len added) \<and> r \<le> max rn (max t m)"
proof (induction xs arbitrary: acc rn)
  case Nil
  then show ?case by simp
next
  case (Cons x xs)
  from Cons.prems obtain l where l: "seg_len x = Inr l" by (auto split: sum.splits)
  then have hk: "has_keys x" and ll: "l = the_len x" using seg_len_Inr by blast+
  show ?case
  proof (cases "rn + l \<le> t")
    case True
    then have "trim_loop t m xs (acc @ [x]) (rn + l) = Inr (tr, r)" using Cons.prems l by simp
    from Cons.IH [OF this] obtain added where a: "tr = (acc @ [x]) @ added"
      "list_all has_keys added" "r = rn + l + sum_list (map the_len added)"
      "r \<le> max (rn + l) (max t m)" by blast
    have "tr = acc @ (x # added)" using a by simp
    moreover have "list_all has_keys (x # added)" using a hk by simp
    moreover have "r = rn + sum_list (map the_len (x # added))" using a ll by simp
    moreover have "r \<le> max rn (max t m)" using a True by linarith
    ultimately show ?thesis by blast
  next
    case False
    let ?rem = "max (t - rn) (m - rn)"
    show ?thesis
    proof (cases "?rem \<ge> 0.4")
      case True
      from hk obtain s where s: "start x = Some s" by (auto simp: has_keys_def)
      let ?y = "x\<lparr>end' := Some (s + ?rem)\<rparr>"
      from Cons.prems l False True s have res: "tr = acc @ [?y]" "r = rn + ?rem"
        by (simp_all add: Let_def)
      have "has_keys ?y" using s by (simp add: has_keys_def)
      moreover have "the_len ?y = ?rem" using s by (simp add: the_len_def get_float_def)
      moreover have "rn + ?rem \<le> max rn (max t m)" by linarith
      ultimately show ?thesis using res by (intro exI [of _ "[?y]"]) simp
    next
      case False2: False
      from Cons.prems l False False2 have "tr = acc" "r = rn" by (simp_all add: Let_def)
      then show ?thesis by (intro exI [of _ "[]"]) simp
    qed
  qed
qed

text \<open>
  Claim C1, as the code has it. On a segment list whose segments have both keys,
  \<open>clamp_duration_to_range\<close> returns a list and a total, the total being the summed
  duration of the returned list. If the input total is at most \<open>max_total\<close> the input
  is returned unchanged. Otherwise, if the greedily trimmed total is below \<open>min_total\<close>,
  the input is returned unchanged as well, and its total exceeds \<open>max_total\<close>.
  Otherwise the trimmed list is returned: its total is at least \<open>min_total\<close> and at
  most the largest of \<open>target_s\<close>, \<open>min_total\<close> and 0, hence at most \<open>max_total\<close> when
  \<open>target_s \<le> max_total\<close>, \<open>min_total \<le> max_total\<close> and \<open>0 \<le> max_total\<close>.
\<close>

theorem clamp_duration_to_range_bounds:
  assumes "\<forall>seg\<in>set segments. start seg \<noteq> None \<and> end' seg \<noteq> None"
  shows "\<exists>out total_s input_total trimmed running.
           clamp_duration_to_range segments target_s min_total max_total = Inr (out, total_s)
         \<and> sum_len segments 0 = Inr input_total
         \<and> trim_loop target_s min_total segments [] 0 = Inr (trimmed, running)
         \<and> sum_len out 0 = Inr total_s
         \<and> (if input_total \<le> max_total then out = segments \<and> total_s = input_total
            else if running < min_total
              then out = segments \<and> total_s = input_total \<and> max_total < total_s
            else out = trimmed \<and> total_s = running \<and> min_total \<le> total_s
                 \<and> total_s \<le> max (max target_s min_total) 0
                 \<and> (target_s \<le> max_total \<and> min_total \<le> max_total \<and> 0 \<le> max_total
                      \<longrightarrow> total_s \<le> max_total))"
proof -
  have hk: "list_all has_keys segments" using assms by (simp add: list_all_iff has_keys_def)
  let ?tot = "sum_list (map the_len segments)"
  have tot: "sum_len segments 0 = Inr ?tot" using sum_len_has_keys [OF hk, of 0] by simp
  obtain tr r where tr: "trim_loop target_s min_total segments [] 0 = Inr (tr, r)"
    using trim_loop_returns [OF hk] by blast
  from trim_loop_inv [OF tr] have inv: "list_all has_keys tr" "r = sum_list (map the_len tr)"
    "r \<le> max 0 (max target_s min_total)" by auto
  have trs: "sum_len tr 0 = Inr r" using sum_len_has_keys [OF inv(1), of 0] inv(2) by simp
  have up: "r \<le> max (max target_s min_total) 0" using inv(3) by linarith
  show ?thesis
  proof (cases "?tot \<le> max_total")
    case True
    then have "clamp_duration_to_range segments target_s min_total max_total
                 = Inr (segments, ?tot)"
      using tot by (simp add: clamp_duration_to_range_def)
    then show ?thesis using tot tr True by simp
  next
    case False
    show ?thesis
    proof (cases "r < min_total")
      case True
      then have "clamp_duration_to_range segments target_s min_total max_total
                   = Inr (segments, ?tot)"
        using tot tr False by (simp add: clamp_duration_to_range_def)
      then show ?thesis using tot tr True False by simp
    next
      case False2: False
      then have "clamp_duration_to_range segments target_s min_total max_total = Inr (tr, r)"
        using tot tr False by (simp add: clamp_duration_to_range_def)
      moreover have "target_s \<le> max_total \<and> min_total \<le> max_total \<and> 0 \<le> max_total
                      \<longrightarrow> r \<le> max_total" using up by linarith
      ultimately show ?thesis using tot tr False False2 trs up by simp
    qed
  qed
qed

theorem clamp_duration_to_range_bounds_witness:
  "clamp_duration_to_range long_segments 45 30 60
     = Inr ([\<lparr>start = Some 0, end' = Some 40\<rparr>, \<lparr>start = Some 50, end' = Some 55\<rparr>], 45)
   \<and> sum_len long_segments 0 = Inr 75
   \<and> sum_len [\<lparr>start = Some 0, end' = Some 40\<rparr>, \<lparr>start = Some 50, end' = Some 55\<rparr>] 0 = Inr 45"
proof -
  have h: "\<forall>seg\<in>set long_segments. start seg \<noteq> None \<and> end' seg \<noteq> None"
    by (simp add: long_segments_def)
  show ?thesis
    using clamp_duration_to_range_bounds [OF h, of 45 30 60]
    by (simp add: clamp_duration_to_range_def long_segments_def seg_len_def)
qed

theorem clamp_duration_to_range_exceeds_max_counterexample:
  "clamp_duration_to_range short_head_segments 30 30 60 = Inr (short_head_segments, 99.8)
   \<and> (60::real) < 99.8"
  by (simp add: clamp_duration_to_range_def short_head_segments_def seg_len_def)

section \<open>Properties of the transition compositor\<close>

lemma str_nat_digits:
  "str_nat 0 = ''0''" "str_nat (Suc 0) = ''1''" "str_nat 1 = ''1''" "str_nat 2 = ''2''"
  "str_nat 3 = ''3''"
  by (simp_all add: str_nat.simps)

lemma probe_durations_length:
  "probe_durations env w ps = Inr ds \<Longrightarrow> length ds = length ps"
  by (induction ps arbitrary: ds) (auto split: sum.splits)

lemma xfade_loop_upt:
  "xfade_loop tr d ds [k..<n] fc l off = (fc', l', off') \<Longrightarrow>
     length fc' = length fc + (n - k)
     \<and> (\<forall>i<length fc. fc' ! i = fc ! i)
     \<and> (\<forall>i<n - k. xf_idx (fc' ! (length fc + i)) = k + i
           \<and> xf_offset (fc' ! (length fc + i)) = off + (\<Sum>m = k..<k + i. ds ! m - d))"
proof (induction "n - k" arbitrary: k fc l off)
  case 0
  then show ?case by simp
next
  case (Suc j)
  then have kn: "k < n" by simp
  let ?st = "\<lparr>xf_last = l, xf_idx = k, xf_transition = tr, xf_duration = d, xf_offset = off\<rparr>"
  have step: "xfade_loop tr d ds [Suc k..<n] (fc @ [?st]) (''[v'' @ str_nat k @ '']'')
                (off + (ds ! k - d)) = (fc', l', off')"
    using Suc.prems kn by (simp add: upt_conv_Cons)
  have j: "j = n - Suc k" using Suc.hyps(2) by simp
  note IH = Suc.hyps(1) [OF j step]
  have len: "length fc' = length fc + (n - k)" using IH kn by simp
  have old: "\<forall>i<length fc. fc' ! i = fc ! i"
  proof (intro allI impI)
    fix i assume i: "i < length fc"
    then have "fc' ! i = (fc @ [?st]) ! i" using IH by simp
    then show "fc' ! i = fc ! i" using i by (simp add: nth_append)
  qed
  have new: "\<forall>i<n - k. xf_idx (fc' ! (length fc + i)) = k + i
           \<and> xf_offset (fc' ! (length fc + i)) = off + (\<Sum>m = k..<k + i. ds ! m - d)"
  proof (intro allI impI)
    fix i assume i: "i < n - k"
    show "xf_idx (fc' ! (length fc + i)) = k + i
           \<and> xf_offset (fc' ! (length fc + i)) = off + (\<Sum>m = k..<k + i. ds ! m - d)"
    proof (cases i)
      case 0
      have "fc' ! length fc = (fc @ [?st]) ! length fc" using IH by simp
      then show ?thesis using 0 by simp
    next
      case (Suc i')
      then have i': "i' < n - Suc k" using i by simp
      from IH i' have a: "xf_idx (fc' ! (length (fc @ [?st]) + i')) = Suc k + i'"
        and b: "xf_offset (fc' ! (length (fc @ [?st]) + i'))
                 = off + (ds ! k - d) + (\<Sum>m = Suc k..<Suc k + i'. ds ! m - d)" by blast+
      have s: "(\<Sum>m = k..<k + i. ds ! m - d) = (ds ! k - d) + (\<Sum>m = Suc k..<Suc k + i'. ds ! m - d)"
        unfolding Suc by (simp add: sum.atLeast_Suc_lessThan)
      show ?thesis using a b s Suc by simp
    qed
  qed
  from len old new show ?case by blast
qed

lemma sum_take_nth:
  "i \<le> length ds \<Longrightarrow> (\<Sum>m = 0..<i. ds ! m) = sum_list (take i (ds :: real list))"
  by (simp add: sum_list_sum_nth atLeast0LessThan min_def)

text \<open>
  Claim C5. When \<open>apply_transitions\<close> is given at least two clips and a transition
  type other than \<open>"none"\<close>, and the clip durations have been probed, it runs one
  command whose filter graph has one cross-fade stage per merge. The offset of the
  first stage is the duration of clip 0 minus the transition duration; the offset of
  each later stage is the offset before it plus the duration of the clip just merged
  minus the transition duration; so the stage that merges clip \<open>i\<close> has the offset
  (sum of the durations of clips \<open>0..i-1\<close>) minus \<open>i\<close> times the transition duration.
  Seconds are real numbers.
\<close>

theorem apply_transitions_offsets:
  assumes "ttype \<noteq> ''none''" and "2 \<le> length clip_paths"
    and "probe_durations env w clip_paths = Inr durations"
  shows "\<exists>filter_complex last_label.
           apply_transitions env clip_paths ttype duration output_path w
             = run env (xfade_cmd env clip_paths filter_complex last_label output_path) w
         \<and> length filter_complex = length clip_paths - 1
         \<and> xf_offset (filter_complex ! 0) = durations ! 0 - duration
         \<and> (\<forall>i. Suc i < length filter_complex \<longrightarrow>
               xf_offset (filter_complex ! Suc i)
                 = xf_offset (filter_complex ! i) + (durations ! Suc i - duration))
         \<and> (\<forall>i<length filter_complex.
               xf_idx (filter_complex ! i) = Suc i
               \<and> xf_offset (filter_complex ! i)
                   = sum_list (take (Suc i) durations) - real (Suc i) * duration)"
proof -
  let ?n = "length clip_paths"
  let ?tr = "case map_of transitions ttype of None \<Rightarrow> ''fade'' | Some t \<Rightarrow> t"
  have len: "length durations = ?n" using probe_durations_length [OF assms(3)] .
  obtain fc l off where loop:
    "xfade_loop ?tr duration durations [1..<?n] [] ''[0:v]'' (durations ! 0 - duration)
       = (fc, l, off)" by (cases "xfade_loop ?tr duration durations [1..<?n] [] ''[0:v]'' (durations ! 0 - duration)") auto
  have app: "apply_transitions env clip_paths ttype duration output_path w
               = run env (xfade_cmd env clip_paths fc l output_path) w"
    using assms loop by (simp add: apply_transitions_def)
  from xfade_loop_upt [OF loop]
  have flen: "length fc = ?n - 1"
    and st: "\<And>i. i < ?n - 1 \<Longrightarrow> xf_idx (fc ! i) = Suc i
               \<and> xf_offset (fc ! i) = durations ! 0 - duration + (\<Sum>m = 1..<1 + i. durations ! m - duration)"
    by auto
  have closed: "xf_offset (fc ! i) = sum_list (take (Suc i) durations) - real (Suc i) * duration"
    if i: "i < ?n - 1" for i
  proof -
    have "(\<Sum>m = 0..<Suc i. durations ! m - duration)
            = (durations ! 0 - duration) + (\<Sum>m = 1..<1 + i. durations ! m - duration)"
      by (simp add: sum.atLeast_Suc_lessThan)
    moreover have "(\<Sum>m = 0..<Suc i. durations ! m - duration)
            = (\<Sum>m = 0..<Suc i. durations ! m) - real (Suc i) * duration"
      by (simp add: sum_subtractf)
    moreover have "(\<Sum>m = 0..<Suc i. durations ! m) = sum_list (take (Suc i) durations)"
      using i len by (intro sum_take_nth) simp
    ultimately show ?thesis using st [OF i] by simp
  qed
  have first: "xf_offset (fc ! 0) = durations ! 0 - duration"
    using st [of 0] assms(2) by simp
  have step: "xf_offset (fc ! Suc i) = xf_offset (fc ! i) + (durations ! Suc i - duration)"
    if i: "Suc i < length fc" for i
  proof -
    have a: "Suc i < ?n - 1" and b: "i < ?n - 1" using i flen by simp_all
    have "take (Suc (Suc i)) durations = take (Suc i) durations @ [durations ! Suc i]"
      using a len by (intro take_Suc_conv_app_nth) simp
    then show ?thesis using closed [OF a] closed [OF b] by (simp add: algebra_simps)
  qed
  show ?thesis
    using app flen first step closed st by (intro exI [of _ fc] exI [of _ l]) auto
qed

theorem apply_transitions_offsets_witness:
  "cmd_log (fst (apply_transitions example_env example_clips ''crossfade'' 0.5
                   [''run'', ''concat.mp4''] empty_world))
     = [xfade_cmd example_env example_clips
          [\<lparr>xf_last = ''[0:v]'', xf_idx = 1, xf_transition = ''fade'', xf_duration = 0.5,
            xf_offset = 4.5\<rparr>,
           \<lparr>xf_last = ''[v1]'', xf_idx = 2, xf_transition = ''fade'', xf_duration = 0.5,
            xf_offset = 19\<rparr>]
          ''[v2]'' [''run'', ''concat.mp4'']]"
proof -
  have h1: "''crossfade'' \<noteq> ''none''" by simp
  have h2: "2 \<le> length example_clips" by (simp add: example_clips_def)
  have h3: "probe_durations example_env empty_world example_clips = Inr [5, 15, 10]"
    by (simp add: example_clips_def example_env_def)
  have len: "length example_clips = 3" by (simp add: example_clips_def)
  have up: "[Suc 0..<3] = [Suc 0, 2]" by (simp add: upt_conv_Cons)
  have eq: "apply_transitions example_env example_clips ''crossfade'' 0.5
               [''run'', ''concat.mp4''] empty_world
             = run example_env
                 (xfade_cmd example_env example_clips
                    [\<lparr>xf_last = ''[0:v]'', xf_idx = 1, xf_transition = ''fade'',
                      xf_duration = 0.5, xf_offset = 4.5\<rparr>,
                     \<lparr>xf_last = ''[v1]'', xf_idx = 2, xf_transition = ''fade'',
                      xf_duration = 0.5, xf_offset = 19\<rparr>]
                    ''[v2]'' [''run'', ''concat.mp4'']) empty_world"
    by (simp add: apply_transitions_def h3 len transitions_def up str_nat_digits Let_def)
  show ?thesis
    using apply_transitions_offsets [OF h1 h2 h3, of "0.5" "[''run'', ''concat.mp4'']"]
    unfolding eq by (simp add: run_def empty_world_def)
qed

text \<open>
  Claim C8. With the transition type \<open>"none"\<close> or fewer than two clips,
  \<open>apply_transitions\<close> is \<open>concat_clips\<close>, which writes the ordered file list and runs
  one stream-copy concatenation command with no filter graph. And whenever
  \<open>apply_transitions\<close> raises in the pipeline, the pipeline runs \<open>concat_clips\<close> on the
  same clips and the same output path, in the world the failed call left, and goes on
  with the joined file; the step raises only if that concatenation raises too.
\<close>

theorem transition_failure_falls_back_to_concat:
  "(ttype = ''none'' \<or> length clip_paths < 2 \<longrightarrow>
      apply_transitions env clip_paths ttype duration output_path w
        = concat_clips env clip_paths output_path w)
   \<and> cmd_log (fst (concat_clips env clip_paths output_path w))
       = cmd_log w @
         [[''ffmpeg'', ''-y'', ''-f'', ''concat'', ''-safe'', ''0'', ''-i'',
           str_path (parent output_path @ [''concat.txt'']), ''-c'', ''copy'',
           str_path output_path]]
   \<and> files (fst (concat_clips env clip_paths output_path w))
         (parent output_path @ [''concat.txt''])
       = Some (concat (map (\<lambda>clip. ''file '' @ [CHR 0x27] @ str_path clip @ [CHR 0x27, CHR 0x0A])
                         clip_paths))
   \<and> (\<forall>w1 e.
         apply_transitions env clip_paths
            (case transition_type opts of None \<Rightarrow> ''none'' | Some t \<Rightarrow> t)
            (transition_duration opts) (run_dir @ [''concat.mp4'']) w = (w1, Inl e)
         \<longrightarrow> fst (pipeline_transitions env clip_paths opts run_dir w)
               = fst (concat_clips env clip_paths (run_dir @ [''concat.mp4'']) w1)
             \<and> snd (pipeline_transitions env clip_paths opts run_dir w)
               = (case snd (concat_clips env clip_paths (run_dir @ [''concat.mp4'']) w1) of
                    Inl e2 \<Rightarrow> Inl e2
                  | Inr u \<Rightarrow> Inr (run_dir @ [''concat.mp4''])))"
proof -
  have 1: "ttype = ''none'' \<or> length clip_paths < 2 \<longrightarrow>
      apply_transitions env clip_paths ttype duration output_path w
        = concat_clips env clip_paths output_path w"
    by (simp add: apply_transitions_def)
  have 2: "cmd_log (fst (concat_clips env clip_paths output_path w))
       = cmd_log w @
         [[''ffmpeg'', ''-y'', ''-f'', ''concat'', ''-safe'', ''0'', ''-i'',
           str_path (parent output_path @ [''concat.txt'']), ''-c'', ''copy'',
           str_path output_path]]"
    by (simp add: concat_clips_def run_def concat_cmd_def Let_def)
  have 3: "files (fst (concat_clips env clip_paths output_path w))
         (parent output_path @ [''concat.txt''])
       = Some (concat (map (\<lambda>clip. ''file '' @ [CHR 0x27] @ str_path clip @ [CHR 0x27, CHR 0x0A])
                         clip_paths))"
    by (simp add: concat_clips_def run_def Let_def)
  have 4: "\<forall>w1 e.
         apply_transitions env clip_paths
            (case transition_type opts of None \<Rightarrow> ''none'' | Some t \<Rightarrow> t)
            (transition_duration opts) (run_dir @ [''concat.mp4'']) w = (w1, Inl e)
         \<longrightarrow> fst (pipeline_transitions env clip_paths opts run_dir w)
               = fst (concat_clips env clip_paths (run_dir @ [''concat.mp4'']) w1)
             \<and> snd (pipeline_transitions env clip_paths opts run_dir w)
               = (case snd (concat_clips env clip_paths (run_dir @ [''concat.mp4'']) w1) of
                    Inl e2 \<Rightarrow> Inl e2
                  | Inr u \<Rightarrow> Inr (run_dir @ [''concat.mp4'']))"
    by (auto simp: pipeline_transitions_def Let_def split: prod.splits sum.splits)
  from 1 2 3 4 show ?thesis by blast
qed

theorem transition_failure_falls_back_to_concat_witness:
  "snd (apply_transitions example_env example_clips ''crossfade'' 0.3
          [''run'', ''concat.mp4''] empty_world)
     = Inl (RuntimeError ''FFmpeg command failed.'')
   \<and> snd (pipeline_transitions example_env example_clips
             (url_opts\<lparr>transition_type := Some ''crossfade''\<rparr>) [''run''] empty_world)
       = Inr [''run'', ''concat.mp4'']
   \<and> last (cmd_log (fst (pipeline_transitions example_env example_clips
             (url_opts\<lparr>transition_type := Some ''crossfade''\<rparr>) [''run''] empty_world)))
       = [''ffmpeg'', ''-y'', ''-f'', ''concat'', ''-safe'', ''0'', ''-i'', ''run/concat.txt'',
          ''-c'', ''copy'', ''run/concat.mp4'']"
proof -
  let ?opts = "url_opts\<lparr>transition_type := Some ''crossfade''\<rparr>"
  let ?fc = "fst (xfade_loop ''fade'' 0.3 [5, 15, 10] [Suc 0, 2] [] ''[0:v]'' (5 - 0.3))"
  let ?x = "xfade_cmd example_env example_clips ?fc ''[v2]'' [''run'', ''concat.mp4'']"
  let ?c = "concat_cmd [''run'', ''concat.txt''] [''run'', ''concat.mp4'']"
  have h3: "probe_durations example_env w example_clips = Inr [5, 15, 10]" for w
    by (simp add: example_clips_def example_env_def)
  have len: "length example_clips = 3" by (simp add: example_clips_def)
  have up: "[Suc 0..<3] = [Suc 0, 2]" by (simp add: upt_conv_Cons)
  have fails: "\<not> run_ok example_env w (xfade_cmd example_env example_clips fc l out)"
    for w fc l out
    by (simp add: example_env_def xfade_cmd_def)
  have ok: "run_ok example_env w ?c" for w
    by (simp add: example_env_def concat_cmd_def str_path_def)
  have app: "apply_transitions example_env example_clips ''crossfade'' 0.3
               [''run'', ''concat.mp4''] w
             = (w\<lparr>cmd_log := cmd_log w @ [?x]\<rparr>, Inl (RuntimeError ''FFmpeg command failed.''))"
    for w
    by (simp add: apply_transitions_def h3 len transitions_def up str_nat_digits Let_def
          run_def fails)
  have tt: "(case transition_type ?opts of None \<Rightarrow> ''none'' | Some t \<Rightarrow> t) = ''crossfade''"
    and td: "transition_duration ?opts = 0.3"
    by (simp_all add: url_opts_def)
  have cc: "concat_clips example_env example_clips [''run'', ''concat.mp4''] w
              = (w\<lparr>files := (files w)([''run'', ''concat.txt''] \<mapsto>
                      concat (map (\<lambda>clip. ''file '' @ [CHR 0x27] @ str_path clip
                                          @ [CHR 0x27, CHR 0x0A]) example_clips)),
                   cmd_log := cmd_log w @ [?c]\<rparr>,
                 Inr ())" for w
    by (simp add: concat_clips_def run_def Let_def parent_def ok)
  have pt: "pipeline_transitions example_env example_clips ?opts [''run''] empty_world
              = (fst (concat_clips example_env example_clips [''run'', ''concat.mp4'']
                        (empty_world\<lparr>cmd_log := cmd_log empty_world @ [?x]\<rparr>)),
                 Inr [''run'', ''concat.mp4''])"
    using transition_failure_falls_back_to_concat
      [of "''crossfade''" example_clips example_env "0.3" "[''run'', ''concat.mp4'']"
          empty_world ?opts "[''run'']"]
    unfolding tt td by (simp add: app cc prod_eq_iff)
  show ?thesis
    unfolding pt by (simp add: app cc concat_cmd_def str_path_def)
qed

section \<open>Properties of the audio graph\<close>

lemma is_atempo_sfx_stages: "\<forall>s\<in>set (fst (sfx_stages opts l)). \<not> is_atempo s"
  by (auto simp: sfx_stages_def Let_def)

lemma is_atempo_music_stages: "\<forall>s\<in>set (fst (music_stages opts l)). \<not> is_atempo s"
  by (auto simp: music_stages_def split: option.splits)

lemma audio_graph_split:
  "\<exists>rest. fst (audio_graph opts) = fst (voice_stages opts) @ rest
          \<and> (\<forall>s\<in>set rest. \<not> is_atempo s)"
proof -
  obtain fc1 l1 where v: "voice_stages opts = (fc1, l1)" by (cases "voice_stages opts")
  obtain fc2 l2 where s: "sfx_stages opts l1 = (fc2, l2)" by (cases "sfx_stages opts l1")
  obtain fc3 l3 where m: "music_stages opts l2 = (fc3, l3)" by (cases "music_stages opts l2")
  have a2: "\<forall>s\<in>set fc2. \<not> is_atempo s" using is_atempo_sfx_stages [of opts l1] s by simp
  have a3: "\<forall>s\<in>set fc3. \<not> is_atempo s" using is_atempo_music_stages [of opts l2] m by simp
  show ?thesis
  proof (cases "audio_filter_arg opts")
    case None
    then have "fst (audio_graph opts) = fst (voice_stages opts) @ (fc2 @ fc3)"
      by (simp add: audio_graph_def v s m)
    then show ?thesis using a2 a3 by (intro exI [of _ "fc2 @ fc3"]) auto
  next
    case (Some chain)
    then have "fst (audio_graph opts) = fst (voice_stages opts) @ (fc2 @ fc3 @ [Enhance l3 chain])"
      by (simp add: audio_graph_def v s m)
    then show ?thesis using a2 a3 by (intro exI [of _ "fc2 @ fc3 @ [Enhance l3 chain]"]) auto
  qed
qed

lemma render_final_cmd_inputs:
  "voiceover_input opts = Some v \<Longrightarrow> v \<noteq> [] \<Longrightarrow>
     take 6 (render_final_cmd env base_path captions_ass opts output_path)
       = [''ffmpeg'', ''-y'', ''-i'', str_path base_path, ''-i'', v]"
  by (simp add: render_final_cmd_def)

lemma render_final_cmd_graph:
  "fst (audio_graph opts) \<noteq> [] \<Longrightarrow>
     \<exists>pre post. render_final_cmd env base_path captions_ass opts output_path
        = pre @ [''-filter_complex'',
                 str_join '';'' (map (show_afilter (str_float env)) (fst (audio_graph opts))),
                 ''-map'', ''0:v'', ''-map'', snd (audio_graph opts)] @ post"
proof -
  assume ne: "fst (audio_graph opts) \<noteq> []"
  obtain fc am where g: "audio_graph opts = (fc, am)" by (cases "audio_graph opts")
  let ?pre = "[''ffmpeg'', ''-y'', ''-i'', str_path base_path]
     @ (case voiceover_input opts of
          None \<Rightarrow> []
        | Some v \<Rightarrow> if v = [] then [] else [''-i'', v])
     @ (case music_input opts of
          None \<Rightarrow> []
        | Some m \<Rightarrow> if m = [] then [] else [''-stream_loop'', ''-1'', ''-i'', m])
     @ concat (map (\<lambda>item. [''-i'', item_path item]) (sfx_items opts))
     @ (case captions_ass of
          None \<Rightarrow> []
        | Some c \<Rightarrow>
            [''-vf'', ''subtitles='' @ [CHR 0x27] @ escape_colons (str_path c) @ [CHR 0x27]])"
  let ?post = "[''-c:v'', ''libx264'', ''-preset'', ''slow'', ''-crf'', ''18'', ''-c:a'', ''aac'',
        ''-b:a'', ''192k'', str_path output_path]"
  have "render_final_cmd env base_path captions_ass opts output_path
        = ?pre @ [''-filter_complex'',
                 str_join '';'' (map (show_afilter (str_float env)) (fst (audio_graph opts))),
                 ''-map'', ''0:v'', ''-map'', snd (audio_graph opts)] @ ?post"
    using ne g by (simp add: render_final_cmd_def)
  then show ?thesis by blast
qed

text \<open>
  Claim C6. When a voiceover input is present and \<open>voiceover_mode\<close> is \<open>"duck"\<close>, the
  voiceover file is input 1 of the command, and the audio graph holds a
  \<open>sidechaincompress\<close> stage whose compressed input is the base track \<open>[0:a]\<close> and
  whose side chain is the voiceover stream (\<open>[1:a]\<close>, or \<open>[vo]\<close> when a tempo stage
  precedes it), directly followed by the mix of \<open>[ducked]\<close> with the voiceover stream;
  the graph is passed to the command as its \<open>-filter_complex\<close> argument.
\<close>

theorem duck_mode_sidechain:
  assumes "truthy (voiceover_input opts)" and "voiceover_mode opts = Some ''duck''"
  shows "\<exists>v tempo voice_input rest pre post.
           voiceover_input opts = Some v \<and> v \<noteq> []
         \<and> take 6 (render_final_cmd env base_path captions_ass opts output_path)
             = [''ffmpeg'', ''-y'', ''-i'', str_path base_path, ''-i'', v]
         \<and> (if \<not> voiceover_pre_sped opts \<and> \<bar>voiceover_speed opts - 1\<bar> > 0.01
             then tempo = [Atempo 1 (max 0.5 (min 2 (voiceover_speed opts)))]
                  \<and> voice_input = ''[vo]''
             else tempo = [] \<and> voice_input = ''[1:a]'')
         \<and> fst (audio_graph opts)
             = tempo @ [Sidechaincompress ''[0:a]'' voice_input ''[ducked]'',
                        Amix [''[ducked]'', voice_input] ''[voice]''] @ rest
         \<and> render_final_cmd env base_path captions_ass opts output_path
             = pre @ [''-filter_complex'',
                      str_join '';'' (map (show_afilter (str_float env)) (fst (audio_graph opts))),
                      ''-map'', ''0:v'', ''-map'', snd (audio_graph opts)] @ post"
proof -
  from assms(1) obtain v where v: "voiceover_input opts = Some v" "v \<noteq> []"
    by (auto simp: truthy_def split: option.splits)
  have idx: "voiceover_index opts = Some 1" using assms(1) by (simp add: voiceover_index_def)
  let ?t = "\<not> voiceover_pre_sped opts \<and> \<bar>voiceover_speed opts - 1\<bar> > 0.01"
  let ?tempo = "if ?t then [Atempo 1 (max 0.5 (min 2 (voiceover_speed opts)))] else []"
  let ?vi = "if ?t then ''[vo]'' else ''[1:a]''"
  have vs: "fst (voice_stages opts)
              = ?tempo @ [Sidechaincompress ''[0:a]'' ?vi ''[ducked]'',
                          Amix [''[ducked]'', ?vi] ''[voice]'']"
    using idx assms(2) by (simp add: voice_stages_def str_nat_digits)
  from audio_graph_split [of opts] obtain rest where
    rest: "fst (audio_graph opts) = fst (voice_stages opts) @ rest" by blast
  have g: "fst (audio_graph opts)
             = ?tempo @ [Sidechaincompress ''[0:a]'' ?vi ''[ducked]'',
                         Amix [''[ducked]'', ?vi] ''[voice]''] @ rest"
    using rest vs by simp
  then have ne: "fst (audio_graph opts) \<noteq> []" by simp
  from render_final_cmd_graph [OF ne, of env base_path captions_ass output_path]
  obtain pre post where c: "render_final_cmd env base_path captions_ass opts output_path
        = pre @ [''-filter_complex'',
                 str_join '';'' (map (show_afilter (str_float env)) (fst (audio_graph opts))),
                 ''-map'', ''0:v'', ''-map'', snd (audio_graph opts)] @ post" by blast
  have t6: "take 6 (render_final_cmd env base_path captions_ass opts output_path)
             = [''ffmpeg'', ''-y'', ''-i'', str_path base_path, ''-i'', v]"
    using render_final_cmd_inputs [OF v] .
  show ?thesis
    using v t6 g c
    by (intro exI [of _ v] exI [of _ ?tempo] exI [of _ ?vi] exI [of _ rest]
          exI [of _ pre] exI [of _ post]) simp
qed

theorem duck_mode_sidechain_witness:
  "fst (audio_graph (voiceover_opts\<lparr>voiceover_mode := Some ''duck''\<rparr>))
     = [Sidechaincompress ''[0:a]'' ''[1:a]'' ''[ducked]'',
        Amix [''[ducked]'', ''[1:a]''] ''[voice]'']
   \<and> show_afilter (\<lambda>r. ''?'') (Sidechaincompress ''[0:a]'' ''[1:a]'' ''[ducked]'')
       = ''[0:a][1:a]sidechaincompress=threshold=0.08:ratio=8[ducked]''"
proof -
  let ?o = "voiceover_opts\<lparr>voiceover_mode := Some ''duck''\<rparr>"
  have h1: "truthy (voiceover_input ?o)"
    by (simp add: truthy_def voiceover_input_def voiceover_opts_def url_opts_def)
  have h2: "voiceover_mode ?o = Some ''duck''" by simp
  have g: "fst (audio_graph ?o)
     = [Sidechaincompress ''[0:a]'' ''[1:a]'' ''[ducked]'',
        Amix [''[ducked]'', ''[1:a]''] ''[voice]'']"
    by (simp add: audio_graph_def voice_stages_def sfx_stages_def music_stages_def
          audio_filter_arg_def audio_filters_def voiceover_index_def music_index_def
          voiceover_input_def music_input_def truthy_def voiceover_opts_def url_opts_def
          str_nat_digits)
  show ?thesis
    using duck_mode_sidechain [OF h1 h2] g by simp
qed

text \<open>
  Claim C7, as the code has it. When a voiceover is present, not pre-adjusted, and its
  speed differs from 1.0 by more than 0.01, the first stage of the audio graph is the
  tempo change of input 1 with the speed clamped into [0.5, 2.0], and no other stage
  is a tempo change. When there is no voiceover, or it is pre-adjusted, or its speed is
  within 0.01 of 1.0, the graph has no tempo stage.
\<close>

theorem voiceover_tempo_stage:
  "(truthy (voiceover_input opts) \<and> \<not> voiceover_pre_sped opts
      \<and> \<bar>voiceover_speed opts - 1\<bar> > 0.01
    \<longrightarrow> (\<exists>rest. fst (audio_graph opts)
                    = Atempo 1 (max 0.5 (min 2 (voiceover_speed opts))) # rest
               \<and> (\<forall>s\<in>set rest. \<not> is_atempo s))
        \<and> 0.5 \<le> max 0.5 (min 2 (voiceover_speed opts))
        \<and> max 0.5 (min 2 (voiceover_speed opts)) \<le> 2)
   \<and> (\<not> truthy (voiceover_input opts) \<or> voiceover_pre_sped opts
      \<or> \<bar>voiceover_speed opts - 1\<bar> \<le> 0.01
    \<longrightarrow> (\<forall>s\<in>set (fst (audio_graph opts)). \<not> is_atempo s))"
proof -
  from audio_graph_split [of opts] obtain rest where
    rest: "fst (audio_graph opts) = fst (voice_stages opts) @ rest"
      "\<forall>s\<in>set rest. \<not> is_atempo s" by blast
  have a: "\<exists>rest. fst (audio_graph opts)
                    = Atempo 1 (max 0.5 (min 2 (voiceover_speed opts))) # rest
               \<and> (\<forall>s\<in>set rest. \<not> is_atempo s)"
    if h: "truthy (voiceover_input opts)" "\<not> voiceover_pre_sped opts"
      "\<bar>voiceover_speed opts - 1\<bar> > 0.01"
  proof -
    have idx: "voiceover_index opts = Some 1" using h(1) by (simp add: voiceover_index_def)
    have "\<exists>comb. fst (voice_stages opts)
                    = Atempo 1 (max 0.5 (min 2 (voiceover_speed opts))) # comb
                 \<and> (\<forall>s\<in>set comb. \<not> is_atempo s)"
      using idx h(2,3) by (simp add: voice_stages_def Let_def)
    then obtain comb where comb: "fst (voice_stages opts)
                    = Atempo 1 (max 0.5 (min 2 (voiceover_speed opts))) # comb"
      "\<forall>s\<in>set comb. \<not> is_atempo s" by blast
    show ?thesis using rest comb by (intro exI [of _ "comb @ rest"]) auto
  qed
  have b: "\<forall>s\<in>set (fst (audio_graph opts)). \<not> is_atempo s"
    if h: "\<not> truthy (voiceover_input opts) \<or> voiceover_pre_sped opts
             \<or> \<bar>voiceover_speed opts - 1\<bar> \<le> 0.01"
  proof -
    have "\<forall>s\<in>set (fst (voice_stages opts)). \<not> is_atempo s"
      using h by (auto simp: voice_stages_def voiceover_index_def Let_def split: option.splits)
    then show ?thesis using rest by auto
  qed
  show ?thesis using a b by auto
qed

theorem voiceover_tempo_stage_witness:
  "fst (audio_graph (voiceover_opts\<lparr>voiceover_speed := 3, voiceover_mode := Some ''mix''\<rparr>))
     = [Atempo 1 2, Amix [''[0:a]'', ''[vo]''] ''[voice]'']
   \<and> fst (audio_graph (voiceover_opts\<lparr>voiceover_speed := 3, voiceover_pre_sped := True\<rparr>)) = []"
proof -
  let ?o = "voiceover_opts\<lparr>voiceover_speed := 3, voiceover_mode := Some ''mix''\<rparr>"
  have g: "fst (audio_graph ?o) = [Atempo 1 2, Amix [''[0:a]'', ''[vo]''] ''[voice]'']"
    by (simp add: audio_graph_def voice_stages_def sfx_stages_def music_stages_def
          audio_filter_arg_def audio_filters_def voiceover_index_def music_index_def
          voiceover_input_def music_input_def truthy_def voiceover_opts_def url_opts_def
          str_nat_digits)
  have g2: "fst (audio_graph (voiceover_opts\<lparr>voiceover_speed := 3, voiceover_pre_sped := True\<rparr>)) = []"
    by (simp add: audio_graph_def voice_stages_def sfx_stages_def music_stages_def
          audio_filter_arg_def audio_filters_def voiceover_index_def music_index_def
          voiceover_input_def music_input_def truthy_def voiceover_opts_def url_opts_def
          str_nat_digits)
  show ?thesis using voiceover_tempo_stage [of ?o] g g2 by simp
qed

theorem voiceover_tempo_tolerance_counterexample:
  "truthy (voiceover_input (voiceover_opts\<lparr>voiceover_speed := 1.005\<rparr>))
   \<and> \<not> voiceover_pre_sped (voiceover_opts\<lparr>voiceover_speed := 1.005\<rparr>)
   \<and> voiceover_speed (voiceover_opts\<lparr>voiceover_speed := 1.005\<rparr>) \<noteq> 1
   \<and> fst (audio_graph (voiceover_opts\<lparr>voiceover_speed := 1.005\<rparr>)) = []"
  by (simp add: audio_graph_def voice_stages_def sfx_stages_def music_stages_def
        audio_filter_arg_def audio_filters_def voiceover_index_def music_index_def
        voiceover_input_def music_input_def truthy_def voiceover_opts_def url_opts_def
        str_nat_digits)

section \<open>Properties of the job orchestrator\<close>

lemma render_with_fallback_eq:
  assumes a1: "pipeline w src segs opts plan dir = (w1, opts1, r1)"
    and a2: "pipeline w1 src segs
               (opts1\<lparr>ai_visuals_enabled := False, transition_type := Some ''none''\<rparr>) plan dir
             = (w2, opts2, r2)"
    and a3: "pipeline w2 src segs (opts2\<lparr>captions_enabled := False\<rparr>) plan dir = (w3, opts3, r3)"
  shows "render_with_fallback pipeline src segs opts plan dir (journal, w) =
     (if isl r1 then
        if isl r2 then
          ((journal @
             [\<lparr>att_source = src, att_segments = segs, att_opts = opts, att_plan = plan,
               att_run_dir = dir\<rparr>,
              \<lparr>att_source = src, att_segments = segs,
               att_opts = opts1\<lparr>ai_visuals_enabled := False, transition_type := Some ''none''\<rparr>,
               att_plan = plan, att_run_dir = dir\<rparr>,
              \<lparr>att_source = src, att_segments = segs,
               att_opts = opts2\<lparr>captions_enabled := False\<rparr>,
               att_plan = plan, att_run_dir = dir\<rparr>], w3), r3)
        else
          ((journal @
             [\<lparr>att_source = src, att_segments = segs, att_opts = opts, att_plan = plan,
               att_run_dir = dir\<rparr>,
              \<lparr>att_source = src, att_segments = segs,
               att_opts = opts1\<lparr>ai_visuals_enabled := False, transition_type := Some ''none''\<rparr>,
               att_plan = plan, att_run_dir = dir\<rparr>], w2), r2)
      else
        ((journal @
           [\<lparr>att_source = src, att_segments = segs, att_opts = opts, att_plan = plan,
             att_run_dir = dir\<rparr>], w1), r1))"
  using a1 a2 a3
  by (cases r1; cases r2) (simp_all add: render_with_fallback_def attempt_render_def Let_def)

text \<open>
  Claim C3. Name the outcome of the first call of the pipeline \<open>r1\<close>, that of a call
  with the options the first call left, \<open>ai_visuals_enabled\<close> forced to \<open>False\<close> and
  \<open>transition_type\<close> forced to \<open>"none"\<close>, \<open>r2\<close>, and that of a call with the options
  the second call left and \<open>captions_enabled\<close> forced to \<open>False\<close>, \<open>r3\<close>. Then the calls
  \<open>process_job\<close> makes are the first one, the second one exactly if the first raised,
  and the third one exactly if the first two raised, each with the same source,
  segments, plan and run directory; the rendering raises only if all three calls
  raise, and then the job is marked failed with the third exception; otherwise the
  job goes on to the integrity check of claim C4 with the output of the first call
  that returned.
\<close>

theorem render_fallback_cascade:
  assumes a1: "pipeline w src segs opts plan dir = (w1, opts1, r1)"
    and a2: "pipeline w1 src segs
               (opts1\<lparr>ai_visuals_enabled := False, transition_type := Some ''none''\<rparr>) plan dir
             = (w2, opts2, r2)"
    and a3: "pipeline w2 src segs (opts2\<lparr>captions_enabled := False\<rparr>) plan dir = (w3, opts3, r3)"
  shows "\<exists>calls wf r.
           render_with_fallback pipeline src segs opts plan dir (journal, w)
             = ((journal @ calls, wf), r)
         \<and> calls = take (length calls)
             [\<lparr>att_source = src, att_segments = segs, att_opts = opts, att_plan = plan,
               att_run_dir = dir\<rparr>,
              \<lparr>att_source = src, att_segments = segs,
               att_opts = opts1\<lparr>ai_visuals_enabled := False, transition_type := Some ''none''\<rparr>,
               att_plan = plan, att_run_dir = dir\<rparr>,
              \<lparr>att_source = src, att_segments = segs,
               att_opts = opts2\<lparr>captions_enabled := False\<rparr>,
               att_plan = plan, att_run_dir = dir\<rparr>]
         \<and> length calls = (if isl r1 then if isl r2 then 3 else 2 else 1)
         \<and> (\<forall>c\<in>set calls. att_segments c = segs \<and> att_source c = src
                \<and> att_plan c = plan \<and> att_run_dir c = dir)
         \<and> r = (if isl r1 then if isl r2 then r3 else r2 else r1)
         \<and> wf = (if isl r1 then if isl r2 then w3 else w2 else w1)
         \<and> (isl r \<longleftrightarrow> isl r1 \<and> isl r2 \<and> isl r3)
         \<and> (\<forall>exc. r = Inl exc \<longrightarrow>
               process_job_render pipeline inspect_video src segs opts plan dir j (journal, w)
                 = ((journal @ calls, wf),
                    j\<lparr>status := ''error'', progress := 100, error := Some (str_exn exc)\<rparr>))
         \<and> (\<forall>output_path. r = Inr output_path \<longrightarrow>
               process_job_render pipeline inspect_video src segs opts plan dir j (journal, w)
                 = ((journal @ calls, wf),
                    case integrity_check inspect_video wf output_path src of
                      Inl exc \<Rightarrow>
                        j\<lparr>status := ''error'', progress := 100, error := Some (str_exn exc)\<rparr>
                    | Inr u \<Rightarrow>
                        j\<lparr>status := ''done'', progress := 100,
                           output' := Some (str_path output_path)\<rparr>))"
proof -
  note eq = render_with_fallback_eq [where pipeline = pipeline and w = w and src = src
      and segs = segs and opts = opts and plan = plan and dir = dir and journal = journal,
      OF a1 a2 a3]
  let ?A1 = "\<lparr>att_source = src, att_segments = segs, att_opts = opts, att_plan = plan,
               att_run_dir = dir\<rparr>"
  let ?A2 = "\<lparr>att_source = src, att_segments = segs,
               att_opts = opts1\<lparr>ai_visuals_enabled := False, transition_type := Some ''none''\<rparr>,
               att_plan = plan, att_run_dir = dir\<rparr>"
  let ?A3 = "\<lparr>att_source = src, att_segments = segs,
               att_opts = opts2\<lparr>captions_enabled := False\<rparr>,
               att_plan = plan, att_run_dir = dir\<rparr>"
  let ?calls = "if isl r1 then if isl r2 then [?A1, ?A2, ?A3] else [?A1, ?A2] else [?A1]"
  let ?wf = "if isl r1 then if isl r2 then w3 else w2 else w1"
  let ?r = "if isl r1 then if isl r2 then r3 else r2 else r1"
  have rw: "render_with_fallback pipeline src segs opts plan dir (journal, w)
              = ((journal @ ?calls, ?wf), ?r)"
    unfolding eq by simp
  have pj: "process_job_render pipeline inspect_video src segs opts plan dir j (journal, w)
        = ((journal @ ?calls, ?wf),
           case ?r of
             Inl exc \<Rightarrow> j\<lparr>status := ''error'', progress := 100, error := Some (str_exn exc)\<rparr>
           | Inr output_path \<Rightarrow>
               (case integrity_check inspect_video ?wf output_path src of
                  Inl exc \<Rightarrow>
                    j\<lparr>status := ''error'', progress := 100, error := Some (str_exn exc)\<rparr>
                | Inr u \<Rightarrow>
                    j\<lparr>status := ''done'', progress := 100,
                       output' := Some (str_path output_path)\<rparr>))"
    unfolding process_job_render_def rw by (simp add: Let_def split: sum.splits)
  show ?thesis
    apply (intro exI [of _ ?calls] exI [of _ ?wf] exI [of _ ?r] conjI)
            apply (rule rw)
           apply simp
          apply simp
         apply simp
        apply simp
       apply simp
      apply simp
     apply (simp add: pj)
    apply (simp add: pj)
    done
qed

theorem render_fallback_cascade_witness:
  "render_with_fallback example_pipeline [''in.mp4''] plan_segments
      (url_opts\<lparr>ai_visuals_enabled := True\<rparr>) () [''run''] ([], 0)
     = (([\<lparr>att_source = [''in.mp4''], att_segments = plan_segments,
            att_opts = url_opts\<lparr>ai_visuals_enabled := True\<rparr>, att_plan = (),
            att_run_dir = [''run'']\<rparr>,
          \<lparr>att_source = [''in.mp4''], att_segments = plan_segments,
            att_opts = url_opts\<lparr>ai_visuals_enabled := False, transition_type := Some ''none''\<rparr>,
            att_plan = (), att_run_dir = [''run'']\<rparr>,
          \<lparr>att_source = [''in.mp4''], att_segments = plan_segments,
            att_opts = url_opts\<lparr>ai_visuals_enabled := False, transition_type := Some ''none'',
                                 captions_enabled := False\<rparr>,
            att_plan = (), att_run_dir = [''run'']\<rparr>], 3),
        Inr [''run'', ''final.mp4''])"
proof -
  let ?o = "url_opts\<lparr>ai_visuals_enabled := True\<rparr>"
  have a1: "example_pipeline 0 [''in.mp4''] plan_segments ?o () [''run'']
              = (1, ?o, Inl (ExternalError ''overlay generation failed''))"
    by (simp add: example_pipeline_def)
  have a2: "example_pipeline 1 [''in.mp4''] plan_segments
              (?o\<lparr>ai_visuals_enabled := False, transition_type := Some ''none''\<rparr>) () [''run'']
            = (2, ?o\<lparr>ai_visuals_enabled := False, transition_type := Some ''none''\<rparr>,
               Inl (ExternalError ''subtitle file failed''))"
    by (simp add: example_pipeline_def url_opts_def)
  have a3: "example_pipeline 2 [''in.mp4''] plan_segments
              (?o\<lparr>ai_visuals_enabled := False, transition_type := Some ''none''\<rparr>
                 \<lparr>captions_enabled := False\<rparr>) () [''run'']
            = (3, ?o\<lparr>ai_visuals_enabled := False, transition_type := Some ''none''\<rparr>
                 \<lparr>captions_enabled := False\<rparr>, Inr [''run'', ''final.mp4''])"
    by (simp add: example_pipeline_def url_opts_def)
  show ?thesis
    using render_fallback_cascade [where pipeline = example_pipeline and w = 0
        and src = "[''in.mp4'']" and segs = plan_segments and opts = ?o and plan = "()"
        and dir = "[''run'']" and journal = "[]" and inspect_video = example_inspect
        and j = queued_job, OF a1 a2 a3]
    by auto
qed

text \<open>
  Claim C4. After a rendering attempt has succeeded, if the output's width is smaller
  than the source's or its height is smaller than the source's, the job is marked
  failed with the error \<open>Output resolution lower than source.\<close> and the pipeline is
  not called again: the journal of calls is the one the rendering left. Otherwise the
  job is marked done with the output path. A 480x854 output of a 1080x1920 source is
  rejected.
\<close>

theorem downsized_output_fails_job:
  assumes "render_with_fallback pipeline src segs opts plan dir st = (st1, Inr output_path)"
    and "inspect_video (snd st1) output_path = Inr output_info"
    and "inspect_video (snd st1) src = Inr source_info"
  shows "process_job_render pipeline inspect_video src segs opts plan dir j st =
     (st1,
      if info_get (width output_info) < info_get (width source_info)
         \<or> info_get (height output_info) < info_get (height source_info)
      then j\<lparr>status := ''error'', progress := 100,
             error := Some ''Output resolution lower than source.''\<rparr>
      else j\<lparr>status := ''done'', progress := 100, output' := Some (str_path output_path)\<rparr>)"
  using assms by (simp add: process_job_render_def integrity_check_def Let_def)

theorem downsized_output_fails_job_witness:
  "process_job_render example_pipeline example_inspect [''in.mp4''] plan_segments
      (url_opts\<lparr>captions_enabled := False\<rparr>) () [''run''] queued_job ([], 0)
     = (([\<lparr>att_source = [''in.mp4''], att_segments = plan_segments,
            att_opts = url_opts\<lparr>captions_enabled := False\<rparr>, att_plan = (),
            att_run_dir = [''run'']\<rparr>], 1),
        \<lparr>status = ''error'', progress = 100,
         error = Some ''Output resolution lower than source.'', output' = None\<rparr>)"
proof -
  let ?o = "url_opts\<lparr>captions_enabled := False\<rparr>"
  let ?st1 = "([\<lparr>att_source = [''in.mp4''], att_segments = plan_segments,
            att_opts = ?o, att_plan = (), att_run_dir = [''run'']\<rparr>], 1::nat)"
  have r: "render_with_fallback example_pipeline [''in.mp4''] plan_segments ?o () [''run'']
             ([], 0) = (?st1, Inr [''run'', ''final.mp4''])"
    by (simp add: render_with_fallback_def attempt_render_def example_pipeline_def url_opts_def)
  have i1: "example_inspect (snd ?st1) [''run'', ''final.mp4'']
              = Inr \<lparr>width = Some 480, height = Some 854\<rparr>"
    by (simp add: example_inspect_def)
  have i2: "example_inspect (snd ?st1) [''in.mp4'']
              = Inr \<lparr>width = Some 1080, height = Some 1920\<rparr>"
    by (simp add: example_inspect_def)
  show ?thesis
    using downsized_output_fails_job [where pipeline = example_pipeline
        and inspect_video = example_inspect and j = queued_job, OF r i1 i2]
    by (simp add: info_get_def queued_job_def)
qed

section \<open>Properties of \<open>validate_opts\<close>\<close>

text \<open>
  What \<open>validate_opts\<close> accepts: every error it raises is an HTTP 400; it returns
  exactly when the duration is in range, every string field is in its allow-list and
  the integer part of \<open>fps\<close> is an allowed rate; and the value of \<open>transition_type\<close>
  never decides between raising and returning: an unknown one is replaced by
  \<open>"auto"\<close>.
\<close>

lemma py_int_fractional_fps: "py_int 30.5 = 30" "py_int (61 / 2) = 30"
  by (simp_all add: py_int_def)

lemma validate_opts_raises_400:
  "validate_opts opts = Inl e \<Longrightarrow> \<exists>detail. e = HTTPException 400 detail"
  by (auto simp: validate_opts_def bad_request_def Let_def split: if_splits)

lemma validate_opts_accepts:
  "validate_opts opts = Inr opts' \<longleftrightarrow>
     30 \<le> duration_s opts \<and> duration_s opts \<le> 60
     \<and> platform opts \<in> ALLOWED_PLATFORMS \<and> style opts \<in> ALLOWED_STYLES
     \<and> cut_intensity opts \<in> ALLOWED_CUTS \<and> language opts \<in> ALLOWED_LANGS
     \<and> captions opts \<in> ALLOWED_CAPTIONS \<and> resolution opts \<in> ALLOWED_RES
     \<and> content_preset opts \<in> ALLOWED_PRESETS \<and> output_resolution opts \<in> ALLOWED_RES
     \<and> reframe_mode opts \<in> ALLOWED_REFRAME \<and> py_int (fps opts) \<in> ALLOWED_FPS
     \<and> filter_preset opts \<in> ALLOWED_FILTERS
     \<and> caption_template opts \<in> ALLOWED_CAPTION_TEMPLATES
     \<and> caption_position opts \<in> ALLOWED_CAPTION_POSITIONS
     \<and> caption_size opts \<in> ALLOWED_CAPTION_SIZES
     \<and> voiceover_mode opts \<in> Some ` ALLOWED_VOICEOVER_MODES
     \<and> opts' = opts\<lparr>transition_type :=
                   Some (if normalize_transition_type (transition_type opts)
                              \<in> ALLOWED_TRANSITIONS
                         then normalize_transition_type (transition_type opts)
                         else ''auto'')\<rparr>"
  by (auto simp: validate_opts_def bad_request_def Let_def)

lemma validate_opts_transition_never_rejected:
  "validate_opts (opts\<lparr>transition_type := t\<rparr>) = Inl e
     \<longleftrightarrow> validate_opts (opts\<lparr>transition_type := t'\<rparr>) = Inl e"
  by (simp add: validate_opts_def bad_request_def Let_def)

text \<open>
  Claim C10 at the input where the code departs from it. \<open>/start_from_url\<close> with the
  payload \<open>{"url": ..., "fps": 30.5}\<close> hands \<open>validate_opts\<close> the default options
  with \<open>fps = 30.5\<close>. The rate 30.5 is not in \<open>ALLOWED_FPS\<close>, but \<open>int(30.5)\<close> is 30,
  so \<open>validate_opts\<close> returns and the options keep \<open>fps = 30.5\<close>.
\<close>

theorem validate_opts_accepts_fractional_fps:
  "validate_opts (url_opts\<lparr>fps := 30.5\<rparr>) = Inr (url_opts\<lparr>fps := 30.5\<rparr>)"
proof -
  have n: "normalize_transition_type (Some ''none'') = ''none''"
    by (simp add: normalize_transition_type_def strip_def lower_def is_space_def lower_char_def
          aliases_def)
  have "validate_opts (url_opts\<lparr>fps := 30.5\<rparr>)
          = Inr (url_opts\<lparr>fps := 30.5\<rparr>\<lparr>transition_type := Some ''none''\<rparr>)"
    unfolding validate_opts_accepts
    by (simp add: url_opts_def py_int_fractional_fps n ALLOWED_PLATFORMS_def ALLOWED_STYLES_def
          ALLOWED_CUTS_def ALLOWED_LANGS_def ALLOWED_CAPTIONS_def ALLOWED_RES_def
          ALLOWED_PRESETS_def ALLOWED_REFRAME_def ALLOWED_FPS_def ALLOWED_FILTERS_def
          ALLOWED_CAPTION_TEMPLATES_def ALLOWED_CAPTION_POSITIONS_def ALLOWED_CAPTION_SIZES_def
          ALLOWED_TRANSITIONS_def ALLOWED_VOICEOVER_MODES_def)
  then show ?thesis by (simp add: url_opts_def)
qed

lemma validate_opts_coerces_unknown_transition:
  "validate_opts (url_opts\<lparr>transition_type := Some '' Zoom ''\<rparr>)
     = Inr (url_opts\<lparr>transition_type := Some ''auto''\<rparr>)"
proof -
  have n: "normalize_transition_type (Some '' Zoom '') = ''zoom''"
    by (simp add: normalize_transition_type_def strip_def lower_def is_space_def lower_char_def
          aliases_def)
  show ?thesis
    unfolding validate_opts_accepts
    by (simp add: url_opts_def n ALLOWED_PLATFORMS_def ALLOWED_STYLES_def
          ALLOWED_CUTS_def ALLOWED_LANGS_def ALLOWED_CAPTIONS_def ALLOWED_RES_def
          ALLOWED_PRESETS_def ALLOWED_REFRAME_def ALLOWED_FPS_def ALLOWED_FILTERS_def
          ALLOWED_CAPTION_TEMPLATES_def ALLOWED_CAPTION_POSITIONS_def ALLOWED_CAPTION_SIZES_def
          ALLOWED_TRANSITIONS_def ALLOWED_VOICEOVER_MODES_def py_int_def)
qed

end
